theory Spec2Isabelle
  imports Complex_Main "HOL-Library.AList"
begin

section \<open>Base enums and the action record (app/models/base.py)\<close>

text \<open>
  The string-valued enums of \<^verbatim>\<open>app/models/base.py\<close> are datatypes; the function
  \<open>*_value\<close> gives the \<^verbatim>\<open>.value\<close> string of a member where the code formats it.
\<close>

datatype RiskLevel = LOW | MEDIUM | HIGH | CRITICAL

datatype AgentType =
    ORCHESTRATOR | INTAKE | CARE_PLANNING | MEDICATION | DOCUMENTATION
  | BILLING | COMPLIANCE | FAMILY_COMMUNICATION | SCHEDULING

datatype ActionStatus =
    PENDING | IN_PROGRESS | AWAITING_APPROVAL | APPROVED | REJECTED
  | COMPLETED | FAILED | ESCALATED

datatype UserRole =
    SYSTEM_ADMIN | CLINICAL_DIRECTOR | NURSE_MANAGER | CARE_COORDINATOR
  | BILLING_STAFF | FAMILY_PORTAL

datatype py_error = IndexError | ValueError | ZeroDivisionError | StatisticsError

fun RiskLevel_value :: "RiskLevel \<Rightarrow> string" where
  "RiskLevel_value LOW = ''LOW''"
| "RiskLevel_value MEDIUM = ''MEDIUM''"
| "RiskLevel_value HIGH = ''HIGH''"
| "RiskLevel_value CRITICAL = ''CRITICAL''"

fun AgentType_value :: "AgentType \<Rightarrow> string" where
  "AgentType_value ORCHESTRATOR = ''ORCHESTRATOR''"
| "AgentType_value INTAKE = ''INTAKE''"
| "AgentType_value CARE_PLANNING = ''CARE_PLANNING''"
| "AgentType_value MEDICATION = ''MEDICATION''"
| "AgentType_value DOCUMENTATION = ''DOCUMENTATION''"
| "AgentType_value BILLING = ''BILLING''"
| "AgentType_value COMPLIANCE = ''COMPLIANCE''"
| "AgentType_value FAMILY_COMMUNICATION = ''FAMILY_COMMUNICATION''"
| "AgentType_value SCHEDULING = ''SCHEDULING''"

fun UserRole_value :: "UserRole \<Rightarrow> string" where
  "UserRole_value SYSTEM_ADMIN = ''SYSTEM_ADMIN''"
| "UserRole_value CLINICAL_DIRECTOR = ''CLINICAL_DIRECTOR''"
| "UserRole_value NURSE_MANAGER = ''NURSE_MANAGER''"
| "UserRole_value CARE_COORDINATOR = ''CARE_COORDINATOR''"
| "UserRole_value BILLING_STAFF = ''BILLING_STAFF''"
| "UserRole_value FAMILY_PORTAL = ''FAMILY_PORTAL''"

text \<open>The members of \<^verbatim>\<open>AgentType\<close> in declaration order (\<^verbatim>\<open>list(AgentType)\<close>).\<close>

definition all_agent_types :: "AgentType list" where
  "all_agent_types =
     [ORCHESTRATOR, INTAKE, CARE_PLANNING, MEDICATION, DOCUMENTATION,
      BILLING, COMPLIANCE, FAMILY_COMMUNICATION, SCHEDULING]"

text \<open>
  \<^verbatim>\<open>AgentAction\<close>. A \<^verbatim>\<open>dict[str, Any]\<close> is carried as an association list of
  strings; the float \<^verbatim>\<open>confidence_score\<close> is a real (the code only compares it);
  the fields \<^verbatim>\<open>requires_approval\<close>, \<^verbatim>\<open>approved_by\<close> and \<^verbatim>\<open>timestamp\<close>, which no
  governance function reads, are left out.
\<close>

type_synonym py_dict = "(string \<times> string) list"

record AgentAction =
  action_id :: string
  agent_type :: AgentType
  action_type :: string
  parameters :: py_dict
  patient_id :: "string option"
  risk_level :: RiskLevel
  confidence_score :: real
  rationale :: string
  status :: ActionStatus

text \<open>
  Python truthiness of an \<^verbatim>\<open>Optional[str]\<close>: \<^verbatim>\<open>None\<close> and the empty string are
  false, every other string is true (\<^verbatim>\<open>if action.patient_id:\<close>, \<^verbatim>\<open>if session_id:\<close>).
\<close>

fun truthy :: "string option \<Rightarrow> bool" where
  "truthy None = False"
| "truthy (Some s) = (s \<noteq> [])"


section \<open>Layer 3: role-based access control (app/governance/rbac.py)\<close>

record User =
  user_id :: string
  username :: string
  role :: UserRole
  is_active :: bool
  permissions_override :: "string list"

record RBACPermission =
  perm_role :: UserRole
  perm_agent_type :: AgentType
  allowed_actions :: "string list"
  read_access :: bool
  write_access :: bool
  approve_access :: bool
  admin_access :: bool

text \<open>One row of the \<^verbatim>\<open>permission_matrix\<close> literal of \<^verbatim>\<open>_initialize_default_permissions\<close>.\<close>

record matrix_config =
  cfg_agents :: "AgentType list"
  cfg_read :: bool
  cfg_write :: bool
  cfg_approve :: bool
  cfg_admin :: bool
  cfg_actions :: "string list"

fun permission_matrix :: "UserRole \<Rightarrow> matrix_config" where
  "permission_matrix SYSTEM_ADMIN =
     \<lparr>cfg_agents = all_agent_types,
      cfg_read = True, cfg_write = True, cfg_approve = True, cfg_admin = True,
      cfg_actions = [''*'']\<rparr>"
| "permission_matrix CLINICAL_DIRECTOR =
     \<lparr>cfg_agents = [ORCHESTRATOR, INTAKE, CARE_PLANNING, MEDICATION, DOCUMENTATION,
                    COMPLIANCE, FAMILY_COMMUNICATION, SCHEDULING],
      cfg_read = True, cfg_write = True, cfg_approve = True, cfg_admin = False,
      cfg_actions = [''*'']\<rparr>"
| "permission_matrix NURSE_MANAGER =
     \<lparr>cfg_agents = [INTAKE, CARE_PLANNING, DOCUMENTATION, FAMILY_COMMUNICATION, SCHEDULING],
      cfg_read = True, cfg_write = True, cfg_approve = False, cfg_admin = False,
      cfg_actions = [''view_patient'', ''update_care_plan'', ''create_documentation'',
                     ''send_communication'', ''schedule_appointment'']\<rparr>"
| "permission_matrix CARE_COORDINATOR =
     \<lparr>cfg_agents = [FAMILY_COMMUNICATION, SCHEDULING],
      cfg_read = True, cfg_write = True, cfg_approve = False, cfg_admin = False,
      cfg_actions = [''view_schedule'', ''create_appointment'', ''send_reminder'',
                     ''contact_family'', ''update_contact_info'']\<rparr>"
| "permission_matrix BILLING_STAFF =
     \<lparr>cfg_agents = [BILLING],
      cfg_read = True, cfg_write = True, cfg_approve = False, cfg_admin = False,
      cfg_actions = [''view_claims'', ''submit_claim'', ''process_payment'',
                     ''generate_invoice'', ''view_documentation'']\<rparr>"
| "permission_matrix FAMILY_PORTAL =
     \<lparr>cfg_agents = [FAMILY_COMMUNICATION, SCHEDULING],
      cfg_read = True, cfg_write = False, cfg_approve = False, cfg_admin = False,
      cfg_actions = [''view_appointments'', ''view_care_updates'', ''send_message'']\<rparr>"

definition all_user_roles :: "UserRole list" where
  "all_user_roles =
     [SYSTEM_ADMIN, CLINICAL_DIRECTOR, NURSE_MANAGER, CARE_COORDINATOR,
      BILLING_STAFF, FAMILY_PORTAL]"

text \<open>
  The manager's state: the \<^verbatim>\<open>users\<close> dictionary and the \<^verbatim>\<open>_permission_cache\<close>
  keyed by (role, agent type). The \<^verbatim>\<open>permissions\<close> dictionary keyed by a random
  permission id is written once and never read by the checks; it is left out.
\<close>

record RBACManager =
  users :: "string \<rightharpoonup> User"
  permission_cache :: "(UserRole \<times> AgentType) \<rightharpoonup> RBACPermission"

definition make_permission :: "UserRole \<Rightarrow> AgentType \<Rightarrow> RBACPermission" where
  "make_permission r a =
     (let config = permission_matrix r in
      \<lparr>perm_role = r, perm_agent_type = a,
       allowed_actions = cfg_actions config,
       read_access = cfg_read config,
       write_access = cfg_write config,
       approve_access = cfg_approve config,
       admin_access = cfg_admin config\<rparr>)"

text \<open>The two nested loops of \<^verbatim>\<open>_initialize_default_permissions\<close>.\<close>

definition initialize_default_permissions ::
  "(UserRole \<times> AgentType) \<rightharpoonup> RBACPermission" where
  "initialize_default_permissions =
     foldl (\<lambda>cache r.
              foldl (\<lambda>cache a. cache((r, a) \<mapsto> make_permission r a))
                    cache (cfg_agents (permission_matrix r)))
           Map.empty all_user_roles"

definition RBACManager_init :: RBACManager where
  "RBACManager_init =
     \<lparr>users = Map.empty, permission_cache = initialize_default_permissions\<rparr>"

definition register_user :: "RBACManager \<Rightarrow> User \<Rightarrow> RBACManager" where
  "register_user m u = m\<lparr>users := (users m)(user_id u \<mapsto> u)\<rparr>"

definition deactivate_user :: "RBACManager \<Rightarrow> string \<Rightarrow> bool \<times> RBACManager" where
  "deactivate_user m uid =
     (case users m uid of
        None \<Rightarrow> (False, m)
      | Some u \<Rightarrow> (True, m\<lparr>users := (users m)(uid \<mapsto> u\<lparr>is_active := False\<rparr>)\<rparr>))"

definition check_permission ::
  "RBACManager \<Rightarrow> string \<Rightarrow> AgentType \<Rightarrow> string \<Rightarrow> bool \<Rightarrow> bool \<Rightarrow> bool \<times> string" where
  "check_permission m uid a act require_write require_approve =
     (case users m uid of
        None \<Rightarrow> (False, ''User not found'')
      | Some u \<Rightarrow>
          if \<not> is_active u then (False, ''User account is inactive'')
          else if act \<in> set (permissions_override u)
            then (True, ''Permission granted via override'')
          else
            (case permission_cache m (role u, a) of
               None \<Rightarrow>
                 (False, ''No permission defined for '' @ UserRole_value (role u)
                           @ '' on '' @ AgentType_value a)
             | Some permission \<Rightarrow>
                 if \<not> read_access permission
                   then (False, ''No read access to this agent'')
                 else if require_write \<and> \<not> write_access permission
                   then (False, ''Write access required but not granted'')
                 else if require_approve \<and> \<not> approve_access permission
                   then (False, ''Approval access required but not granted'')
                 else if ''*'' \<notin> set (allowed_actions permission)
                         \<and> act \<notin> set (allowed_actions permission)
                   then (False, ''Action '' @ [CHR 0x27] @ act @ [CHR 0x27]
                                 @ '' not in allowed actions'')
                 else (True, ''Permission granted'')))"

definition check_patient_access ::
  "RBACManager \<Rightarrow> string \<Rightarrow> string \<Rightarrow> string \<Rightarrow> bool \<times> string" where
  "check_patient_access m uid pid access_type =
     (case users m uid of
        None \<Rightarrow> (False, ''User not found'')
      | Some u \<Rightarrow>
          if \<not> is_active u then (False, ''User account is inactive'')
          else if role u = SYSTEM_ADMIN then (True, ''Admin access'')
          else if role u = CLINICAL_DIRECTOR then (True, ''Clinical director access'')
          else if role u \<in> set [NURSE_MANAGER, CARE_COORDINATOR]
            then (True, ''Care team access'')
          else if role u = BILLING_STAFF then
            (if access_type \<in> set [''VIEW'', ''BILLING'']
               then (True, ''Billing access for claims processing'')
             else (False, ''Billing staff limited to billing-related access''))
          else if role u = FAMILY_PORTAL
            then (True, ''Family portal access (limited view)'')
          else (False, ''Access denied''))"

definition get_user :: "RBACManager \<Rightarrow> string \<Rightarrow> User option" where
  "get_user m uid = users m uid"


section \<open>Layer 1: risk-tiered gates (app/governance/risk_gates.py)\<close>

text \<open>
  \<^verbatim>\<open>GovernanceRule\<close> and \<^verbatim>\<open>ApprovalRequest\<close> of \<^verbatim>\<open>app/models/governance.py\<close>.
  Random identifiers (\<^verbatim>\<open>uuid4\<close>) are arguments of the functions that draw them;
  creation timestamps and the description text are left out. The status of a request
  is a plain string in the source and stays one here.
\<close>

record GovernanceRule =
  rule_id :: string
  rule_name :: string
  rule_risk_level :: RiskLevel
  confidence_threshold :: real
  requires_approval :: bool
  rule_required_approvers :: int
  auto_escalate :: bool
  enabled :: bool

record ApprovalRequest =
  request_id :: string
  req_action_id :: string
  req_agent_type :: AgentType
  req_action_type :: string
  req_patient_id :: "string option"
  req_risk_level :: RiskLevel
  req_confidence_score :: real
  req_rationale :: string
  details :: py_dict
  required_approvers :: int
  current_approvals :: int
  approved_by :: "string list"
  rejected_by :: "string option"
  rejection_reason :: "string option"
  req_status :: string
  priority :: string

text \<open>
  The \<^verbatim>\<open>rules\<close> dictionary is an association list in insertion order, because
  \<^verbatim>\<open>_get_rule_for_risk_level\<close> returns the first match of an iteration over it;
  \<^verbatim>\<open>pending_approvals\<close> is only read by key.
\<close>

record RiskGateManager =
  rules :: "(string \<times> GovernanceRule) list"
  pending_approvals :: "string \<rightharpoonup> ApprovalRequest"

definition default_rules ::
  "string \<Rightarrow> string \<Rightarrow> string \<Rightarrow> string \<Rightarrow> GovernanceRule list" where
  "default_rules i1 i2 i3 i4 =
     [\<lparr>rule_id = i1, rule_name = ''low_risk_auto_execute'', rule_risk_level = LOW,
       confidence_threshold = 7 / 10, requires_approval = False,
       rule_required_approvers = 1, auto_escalate = False, enabled = True\<rparr>,
      \<lparr>rule_id = i2, rule_name = ''medium_risk_notify'', rule_risk_level = MEDIUM,
       confidence_threshold = 85 / 100, requires_approval = False,
       rule_required_approvers = 1, auto_escalate = True, enabled = True\<rparr>,
      \<lparr>rule_id = i3, rule_name = ''high_risk_approval'', rule_risk_level = HIGH,
       confidence_threshold = 90 / 100, requires_approval = True,
       rule_required_approvers = 1, auto_escalate = True, enabled = True\<rparr>,
      \<lparr>rule_id = i4, rule_name = ''critical_multi_approval'', rule_risk_level = CRITICAL,
       confidence_threshold = 95 / 100, requires_approval = True,
       rule_required_approvers = 2, auto_escalate = True, enabled = True\<rparr>]"

text \<open>
  \<^verbatim>\<open>for rule in default_rules: self.rules[rule.rule_id] = rule\<close>. A dictionary
  assignment replaces the value of a present key in place and appends a new key.
\<close>

definition initialize_default_rules ::
  "string \<Rightarrow> string \<Rightarrow> string \<Rightarrow> string \<Rightarrow> (string \<times> GovernanceRule) list" where
  "initialize_default_rules i1 i2 i3 i4 =
     foldl (\<lambda>rs rule. AList.update (rule_id rule) rule rs) [] (default_rules i1 i2 i3 i4)"

definition RiskGateManager_init ::
  "string \<Rightarrow> string \<Rightarrow> string \<Rightarrow> string \<Rightarrow> RiskGateManager" where
  "RiskGateManager_init i1 i2 i3 i4 =
     \<lparr>rules = initialize_default_rules i1 i2 i3 i4, pending_approvals = Map.empty\<rparr>"

definition add_rule :: "RiskGateManager \<Rightarrow> GovernanceRule \<Rightarrow> RiskGateManager" where
  "add_rule g rule = g\<lparr>rules := AList.update (rule_id rule) rule (rules g)\<rparr>"

definition high_risk_actions :: "string list" where
  "high_risk_actions =
     [''medication_change'', ''treatment_modification'', ''discharge_decision'',
      ''emergency_intervention'', ''biomarker_alert'', ''adverse_event_report'']"

definition medium_risk_actions :: "string list" where
  "medium_risk_actions =
     [''care_plan_update'', ''documentation_update'', ''assessment_completion'',
      ''referral_creation'', ''order_entry'']"

definition critical_actions :: "string list" where
  "critical_actions =
     [''critical_biomarker_alert'', ''emergency_escalation'',
      ''life_threatening_condition'', ''code_blue_activation'']"

definition classify_risk :: "AgentAction \<Rightarrow> RiskLevel" where
  "classify_risk a =
     (if action_type a \<in> set critical_actions then CRITICAL
      else if action_type a \<in> set high_risk_actions then HIGH
      else if action_type a \<in> set medium_risk_actions then MEDIUM
      else LOW)"

text \<open>
  \<^verbatim>\<open>_get_rule_for_risk_level\<close>: the first rule of the level, else the first rule of
  the dictionary; \<^verbatim>\<open>list(...)[0]\<close> raises \<^verbatim>\<open>IndexError\<close> on an empty dictionary.
\<close>

definition get_rule_for_risk_level ::
  "RiskGateManager \<Rightarrow> RiskLevel \<Rightarrow> py_error + GovernanceRule" where
  "get_rule_for_risk_level g lvl =
     (case find (\<lambda>rule. rule_risk_level rule = lvl) (map snd (rules g)) of
        Some rule \<Rightarrow> Inr rule
      | None \<Rightarrow> (case map snd (rules g) of [] \<Rightarrow> Inl IndexError | rule # _ \<Rightarrow> Inr rule))"

text \<open>
  \<^verbatim>\<open>_create_approval_request\<close>; \<open>rid\<close> is the request id drawn for the new request.
  The action is mutated through its reference, so the updated action is returned.
\<close>

definition create_approval_request ::
  "RiskGateManager \<Rightarrow> AgentAction \<Rightarrow> GovernanceRule \<Rightarrow> string \<Rightarrow> string
     \<Rightarrow> ApprovalRequest \<times> RiskGateManager \<times> AgentAction" where
  "create_approval_request g a rule reason rid =
     (let prio = (if risk_level a = CRITICAL then ''URGENT'' else ''HIGH'');
          request =
            \<lparr>request_id = rid,
             req_action_id = action_id a,
             req_agent_type = agent_type a,
             req_action_type = action_type a,
             req_patient_id = patient_id a,
             req_risk_level = risk_level a,
             req_confidence_score = confidence_score a,
             req_rationale = reason @ '': '' @ rationale a,
             details = parameters a,
             required_approvers = rule_required_approvers rule,
             current_approvals = 0,
             approved_by = [],
             rejected_by = None,
             rejection_reason = None,
             req_status = ''PENDING'',
             priority = prio\<rparr>
      in (request,
          g\<lparr>pending_approvals := (pending_approvals g)(rid \<mapsto> request)\<rparr>,
          a\<lparr>status := AWAITING_APPROVAL\<rparr>))"

text \<open>
  The risk level \<^verbatim>\<open>evaluate_gate\<close> works with:
  \<^verbatim>\<open>action.risk_level or self.classify_risk(action)\<close>. A \<^verbatim>\<open>RiskLevel\<close> is a string
  enum, false only when its value is the empty string.
\<close>

definition gate_risk_level :: "AgentAction \<Rightarrow> RiskLevel" where
  "gate_risk_level a =
     (if RiskLevel_value (risk_level a) \<noteq> [] then risk_level a else classify_risk a)"

definition blocked ::
  "ApprovalRequest \<times> RiskGateManager \<times> AgentAction
     \<Rightarrow> (bool \<times> ApprovalRequest option) \<times> RiskGateManager \<times> AgentAction" where
  "blocked r = (case r of (request, g, a) \<Rightarrow> ((False, Some request), g, a))"

definition evaluate_gate ::
  "RiskGateManager \<Rightarrow> AgentAction \<Rightarrow> string
     \<Rightarrow> py_error + ((bool \<times> ApprovalRequest option) \<times> RiskGateManager \<times> AgentAction)" where
  "evaluate_gate g a0 rid =
     (let lvl = gate_risk_level a0;
          a = a0\<lparr>risk_level := lvl\<rparr>
      in case get_rule_for_risk_level g lvl of
           Inl e \<Rightarrow> Inl e
         | Inr rule \<Rightarrow>
             if confidence_score a < confidence_threshold rule
               then Inr (blocked (create_approval_request g a rule ''LOW_CONFIDENCE'' rid))
             else if requires_approval rule
               then Inr (blocked (create_approval_request g a rule ''RISK_LEVEL'' rid))
             else if lvl = LOW
               then Inr ((True, None), g, a\<lparr>status := APPROVED\<rparr>)
             else if lvl = MEDIUM
               then Inr ((True, None), g, a\<lparr>status := APPROVED\<rparr>)
             else Inr (blocked (create_approval_request g a rule ''RISK_LEVEL'' rid)))"

text \<open>
  \<^verbatim>\<open>process_approval\<close>. The request object is mutated in the dictionary; the model
  stores the updated request under the same key.
\<close>

definition process_approval ::
  "RiskGateManager \<Rightarrow> string \<Rightarrow> string \<Rightarrow> bool \<Rightarrow> string option
     \<Rightarrow> bool \<times> RiskGateManager" where
  "process_approval g rid approver_id approved reason =
     (case pending_approvals g rid of
        None \<Rightarrow> (False, g)
      | Some request \<Rightarrow>
          if approved then
            (let r1 = request\<lparr>approved_by := approved_by request @ [approver_id],
                              current_approvals := current_approvals request + 1\<rparr>
             in if current_approvals r1 \<ge> required_approvers r1
                  then (True, g\<lparr>pending_approvals :=
                                  (pending_approvals g)(rid \<mapsto> r1\<lparr>req_status := ''APPROVED''\<rparr>)\<rparr>)
                  else (False, g\<lparr>pending_approvals := (pending_approvals g)(rid \<mapsto> r1)\<rparr>))
          else
            (False, g\<lparr>pending_approvals :=
                        (pending_approvals g)(rid \<mapsto>
                           request\<lparr>req_status := ''REJECTED'',
                                   rejected_by := Some approver_id,
                                   rejection_reason := reason\<rparr>)\<rparr>))"

text \<open>
  A run of approval decisions on one request, each a triple of approver, decision and
  reason, applied in order.
\<close>

fun process_approvals ::
  "RiskGateManager \<Rightarrow> string \<Rightarrow> (string \<times> bool \<times> string option) list \<Rightarrow> RiskGateManager" where
  "process_approvals g rid [] = g"
| "process_approvals g rid ((approver_id, approved, reason) # calls) =
     process_approvals (snd (process_approval g rid approver_id approved reason)) rid calls"


text \<open>The number of approving decisions in a run.\<close>

definition approvals_count :: "(string \<times> bool \<times> string option) list \<Rightarrow> int" where
  "approvals_count calls = int (length (filter (\<lambda>c. fst (snd c)) calls))"


section \<open>Layer 2: audit trail (app/governance/audit_trail.py)\<close>

text \<open>
  The log records of \<^verbatim>\<open>app/models/audit.py\<close> and \<^verbatim>\<open>APICallLog\<close> of
  \<^verbatim>\<open>app/models/base.py\<close>. Clock readings (\<^verbatim>\<open>datetime.utcnow()\<close>) that a function
  stores are arguments of that function, as ISO strings; the creation timestamps of the
  records, which only the sorted read-outs use, are left out. Of an \<^verbatim>\<open>APICallLog\<close>
  the model keeps the fields that \<^verbatim>\<open>log_api_call\<close> copies into the audit entry.
\<close>

record APICallLog =
  call_id :: string
  service_name :: string
  endpoint :: string
  status_code :: int
  latency_ms :: real
  api_timestamp :: string

record AuditLogEntry =
  log_id :: string
  agent_id :: string
  al_agent_type :: AgentType
  al_action_type :: string
  al_patient_id :: "string option"
  al_parameters :: py_dict
  al_rationale :: string
  al_confidence_score :: real
  al_risk_level :: RiskLevel
  api_calls :: "APICallLog list"
  human_override :: bool
  override_by :: "string option"
  override_reason :: "string option"
  outcome :: string
  al_status :: ActionStatus
  modifications :: "py_dict list"
  al_session_id :: "string option"
  al_user_id :: "string option"
  al_ip_address :: "string option"

record AccessLog =
  access_id :: string
  acc_user_id :: string
  acc_user_role :: string
  acc_patient_id :: string
  acc_resource_type :: string
  acc_action :: string
  acc_success :: bool
  acc_reason :: "string option"
  acc_ip_address :: "string option"
  acc_session_id :: "string option"

record EscalationLog =
  escalation_id :: string
  source_agent :: AgentType
  esc_action_id :: string
  escalation_reason :: string
  esc_confidence_score :: real
  esc_risk_level :: RiskLevel
  assigned_to :: "string option"
  resolved :: bool
  resolution_timestamp :: "string option"
  resolution_action :: "string option"
  resolved_by :: "string option"

text \<open>
  Every store of the manager is a Python dictionary, kept as an association list in
  insertion order (the loop of \<^verbatim>\<open>log_api_call\<close> stops at the first match). The three
  indices are \<^verbatim>\<open>defaultdict(list)\<close>: \<open>dd_append\<close> is \<^verbatim>\<open>d[k].append(v)\<close>, which
  creates the key with an empty list first, and \<open>dd_get\<close> is \<^verbatim>\<open>d.get(k, [])\<close>.
\<close>

record AuditTrailManager =
  audit_logs :: "(string \<times> AuditLogEntry) list"
  access_logs :: "(string \<times> AccessLog) list"
  escalation_logs :: "(string \<times> EscalationLog) list"
  api_call_logs :: "(string \<times> APICallLog) list"
  log_index_by_patient :: "(string \<times> string list) list"
  log_index_by_agent :: "(AgentType \<times> string list) list"
  log_index_by_session :: "(string \<times> string list) list"

definition AuditTrailManager_init :: AuditTrailManager where
  "AuditTrailManager_init =
     \<lparr>audit_logs = [], access_logs = [], escalation_logs = [], api_call_logs = [],
      log_index_by_patient = [], log_index_by_agent = [], log_index_by_session = []\<rparr>"

definition dd_append :: "'k \<Rightarrow> 'v \<Rightarrow> ('k \<times> 'v list) list \<Rightarrow> ('k \<times> 'v list) list" where
  "dd_append k v d =
     (case map_of d k of
        None \<Rightarrow> d @ [(k, [v])]
      | Some vs \<Rightarrow> AList.update k (vs @ [v]) d)"

definition dd_get :: "('k \<times> 'v list) list \<Rightarrow> 'k \<Rightarrow> 'v list" where
  "dd_get d k = (case map_of d k of None \<Rightarrow> [] | Some vs \<Rightarrow> vs)"

text \<open>\<^verbatim>\<open>if key: index[key].append(log_id)\<close> for an optional string key.\<close>

fun append_if_truthy ::
  "string option \<Rightarrow> string \<Rightarrow> (string \<times> string list) list \<Rightarrow> (string \<times> string list) list" where
  "append_if_truthy None lid idx = idx"
| "append_if_truthy (Some k) lid idx = (if truthy (Some k) then dd_append k lid idx else idx)"

text \<open>
  \<^verbatim>\<open>log_action\<close>; \<open>lid\<close> is the log id drawn for the new entry, which
  \<open>new_audit_entry\<close> builds as the constructor call of the source does.
\<close>

definition new_audit_entry ::
  "AgentAction \<Rightarrow> string option \<Rightarrow> string option \<Rightarrow> string option \<Rightarrow> string \<Rightarrow> AuditLogEntry" where
  "new_audit_entry a session uid ip lid =
     \<lparr>log_id = lid,
      agent_id = AgentType_value (agent_type a) @ ''_'' @ take 8 (action_id a),
      al_agent_type = agent_type a,
      al_action_type = action_type a,
      al_patient_id = patient_id a,
      al_parameters = parameters a,
      al_rationale = rationale a,
      al_confidence_score = confidence_score a,
      al_risk_level = risk_level a,
      api_calls = [],
      human_override = False,
      override_by = None,
      override_reason = None,
      outcome = [],
      al_status = status a,
      modifications = [],
      al_session_id = session,
      al_user_id = uid,
      al_ip_address = ip\<rparr>"

definition log_action ::
  "AuditTrailManager \<Rightarrow> AgentAction \<Rightarrow> string option \<Rightarrow> string option \<Rightarrow> string option
     \<Rightarrow> string \<Rightarrow> AuditLogEntry \<times> AuditTrailManager" where
  "log_action m a session uid ip lid =
     (new_audit_entry a session uid ip lid,
      m\<lparr>audit_logs := AList.update lid (new_audit_entry a session uid ip lid) (audit_logs m),
        log_index_by_patient := append_if_truthy (patient_id a) lid (log_index_by_patient m),
        log_index_by_agent := dd_append (agent_type a) lid (log_index_by_agent m),
        log_index_by_session := append_if_truthy session lid (log_index_by_session m)\<rparr>)"

text \<open>Python's \<^verbatim>\<open>s in t\<close> on strings: \<open>s\<close> occurs in \<open>t\<close> as a contiguous piece.\<close>

fun str_in :: "string \<Rightarrow> string \<Rightarrow> bool" where
  "str_in s [] = (s = [])"
| "str_in s (c # cs) = (take (length s) (c # cs) = s \<or> str_in s cs)"

text \<open>
  The loop of \<^verbatim>\<open>log_api_call\<close>: the first entry whose agent id contains the action
  id, or whose log id is the action id, gets the call appended; then \<^verbatim>\<open>break\<close>.
\<close>

fun append_api_call ::
  "(string \<times> AuditLogEntry) list \<Rightarrow> APICallLog \<Rightarrow> string \<Rightarrow> (string \<times> AuditLogEntry) list" where
  "append_api_call [] c aid = []"
| "append_api_call ((k, entry) # rest) c aid =
     (if str_in aid (agent_id entry) \<or> log_id entry = aid
        then (k, entry\<lparr>api_calls := api_calls entry @ [c]\<rparr>) # rest
      else (k, entry) # append_api_call rest c aid)"

definition log_api_call ::
  "AuditTrailManager \<Rightarrow> APICallLog \<Rightarrow> string \<Rightarrow> string \<times> AuditTrailManager" where
  "log_api_call m c aid =
     (call_id c,
      m\<lparr>api_call_logs := AList.update (call_id c) c (api_call_logs m),
        audit_logs := append_api_call (audit_logs m) c aid\<rparr>)"

definition log_access ::
  "AuditTrailManager \<Rightarrow> string \<Rightarrow> string \<Rightarrow> string \<Rightarrow> string \<Rightarrow> string \<Rightarrow> bool
     \<Rightarrow> string option \<Rightarrow> string option \<Rightarrow> string option \<Rightarrow> string
     \<Rightarrow> AccessLog \<times> AuditTrailManager" where
  "log_access m uid urole pid rtype act ok reason ip session aid =
     (let l = \<lparr>access_id = aid, acc_user_id = uid, acc_user_role = urole,
               acc_patient_id = pid, acc_resource_type = rtype, acc_action = act,
               acc_success = ok, acc_reason = reason, acc_ip_address = ip,
               acc_session_id = session\<rparr>
      in (l, m\<lparr>access_logs := AList.update aid l (access_logs m)\<rparr>))"

text \<open>\<^verbatim>\<open>RiskLevel(s)\<close>: the member with that value, \<^verbatim>\<open>ValueError\<close> when there is none.\<close>

definition RiskLevel_of_string :: "string \<Rightarrow> py_error + RiskLevel" where
  "RiskLevel_of_string s =
     (if s = ''LOW'' then Inr LOW
      else if s = ''MEDIUM'' then Inr MEDIUM
      else if s = ''HIGH'' then Inr HIGH
      else if s = ''CRITICAL'' then Inr CRITICAL
      else Inl ValueError)"

definition log_escalation ::
  "AuditTrailManager \<Rightarrow> AgentType \<Rightarrow> string \<Rightarrow> string \<Rightarrow> real \<Rightarrow> string \<Rightarrow> string option
     \<Rightarrow> string \<Rightarrow> py_error + (EscalationLog \<times> AuditTrailManager)" where
  "log_escalation m src aid reason conf lvl assignee eid =
     (case RiskLevel_of_string lvl of
        Inl e \<Rightarrow> Inl e
      | Inr l \<Rightarrow>
          (let lg = \<lparr>escalation_id = eid, source_agent = src, esc_action_id = aid,
                     escalation_reason = reason, esc_confidence_score = conf,
                     esc_risk_level = l, assigned_to = assignee, resolved = False,
                     resolution_timestamp = None, resolution_action = None,
                     resolved_by = None\<rparr>
           in Inr (lg, m\<lparr>escalation_logs := AList.update eid lg (escalation_logs m)\<rparr>)))"

text \<open>
  \<^verbatim>\<open>update_log_outcome\<close> and \<^verbatim>\<open>record_human_override\<close> mutate the entry object
  held by the dictionary; the model writes the changed entry back under its key.
\<close>

definition update_log_outcome ::
  "AuditTrailManager \<Rightarrow> string \<Rightarrow> string \<Rightarrow> ActionStatus \<Rightarrow> py_dict list option
     \<Rightarrow> bool \<times> AuditTrailManager" where
  "update_log_outcome m lid out st mods =
     (case map_of (audit_logs m) lid of
        None \<Rightarrow> (False, m)
      | Some entry \<Rightarrow>
          (True,
           m\<lparr>audit_logs :=
               AList.update lid
                 (entry\<lparr>outcome := out, al_status := st,
                        modifications :=
                          (case mods of
                             None \<Rightarrow> modifications entry
                           | Some ms \<Rightarrow> if ms \<noteq> [] then modifications entry @ ms
                                        else modifications entry)\<rparr>)
                 (audit_logs m)\<rparr>))"

definition record_human_override ::
  "AuditTrailManager \<Rightarrow> string \<Rightarrow> string \<Rightarrow> string \<Rightarrow> string \<Rightarrow> bool \<times> AuditTrailManager" where
  "record_human_override m lid who reason now =
     (case map_of (audit_logs m) lid of
        None \<Rightarrow> (False, m)
      | Some entry \<Rightarrow>
          (True,
           m\<lparr>audit_logs :=
               AList.update lid
                 (entry\<lparr>human_override := True,
                        override_by := Some who,
                        override_reason := Some reason,
                        modifications := modifications entry @
                          [[(''type'', ''HUMAN_OVERRIDE''), (''timestamp'', now),
                            (''by'', who), (''reason'', reason)]]\<rparr>)
                 (audit_logs m)\<rparr>))"

definition resolve_escalation ::
  "AuditTrailManager \<Rightarrow> string \<Rightarrow> string \<Rightarrow> string \<Rightarrow> string \<Rightarrow> bool \<times> AuditTrailManager" where
  "resolve_escalation m eid who act now =
     (case map_of (escalation_logs m) eid of
        None \<Rightarrow> (False, m)
      | Some lg \<Rightarrow>
          (True,
           m\<lparr>escalation_logs :=
               AList.update eid
                 (lg\<lparr>resolved := True, resolution_timestamp := Some now,
                     resolution_action := Some act, resolved_by := Some who\<rparr>)
                 (escalation_logs m)\<rparr>))"

text \<open>
  The state-changing operations of the manager as one datatype, and a run of them. The
  read-outs (\<^verbatim>\<open>get_*\<close>, \<^verbatim>\<open>export_audit_report\<close>, \<^verbatim>\<open>get_statistics\<close>) read the
  indices with \<^verbatim>\<open>.get\<close> and change nothing. An operation that raises (\<^verbatim>\<open>log_escalation\<close>
  on an unknown risk level, before it touches a store) leaves the state as it was.
\<close>

datatype audit_op =
    LogAction AgentAction "string option" "string option" "string option" string
  | LogApiCall APICallLog string
  | LogAccess AccessLog
  | LogEscalation AgentType string string real string "string option" string
  | UpdateLogOutcome string string ActionStatus "py_dict list option"
  | RecordHumanOverride string string string string
  | ResolveEscalation string string string string

fun apply_audit_op :: "AuditTrailManager \<Rightarrow> audit_op \<Rightarrow> AuditTrailManager" where
  "apply_audit_op m (LogAction a session uid ip lid) = snd (log_action m a session uid ip lid)"
| "apply_audit_op m (LogApiCall c aid) = snd (log_api_call m c aid)"
| "apply_audit_op m (LogAccess l) =
     snd (log_access m (acc_user_id l) (acc_user_role l) (acc_patient_id l)
            (acc_resource_type l) (acc_action l) (acc_success l) (acc_reason l)
            (acc_ip_address l) (acc_session_id l) (access_id l))"
| "apply_audit_op m (LogEscalation src aid reason conf lvl assignee eid) =
     (case log_escalation m src aid reason conf lvl assignee eid of
        Inl e \<Rightarrow> m
      | Inr r \<Rightarrow> snd r)"
| "apply_audit_op m (UpdateLogOutcome lid out st mods) = snd (update_log_outcome m lid out st mods)"
| "apply_audit_op m (RecordHumanOverride lid who reason now) =
     snd (record_human_override m lid who reason now)"
| "apply_audit_op m (ResolveEscalation eid who act now) = snd (resolve_escalation m eid who act now)"

definition run_audit_ops :: "audit_op list \<Rightarrow> AuditTrailManager" where
  "run_audit_ops ops = foldl apply_audit_op AuditTrailManager_init ops"

text \<open>
  Index integrity of a manager state. \<open>index_ids_logged\<close>: every log id held by one
  of the three indices is a key of \<open>audit_logs\<close>. \<open>entries_indexed\<close>: every stored
  entry sits under its own log id, is listed in the agent-type index under its agent
  type, and is listed in the patient (session) index under its patient (session) id when
  that id is a non-empty string.
\<close>

definition index_ids_logged :: "AuditTrailManager \<Rightarrow> bool" where
  "index_ids_logged m =
     ((\<forall>kv \<in> set (log_index_by_patient m). set (snd kv) \<subseteq> fst ` set (audit_logs m))
    \<and> (\<forall>kv \<in> set (log_index_by_agent m). set (snd kv) \<subseteq> fst ` set (audit_logs m))
    \<and> (\<forall>kv \<in> set (log_index_by_session m). set (snd kv) \<subseteq> fst ` set (audit_logs m)))"

definition entry_indexed :: "AuditTrailManager \<Rightarrow> string \<Rightarrow> AuditLogEntry \<Rightarrow> bool" where
  "entry_indexed m lid entry =
     (log_id entry = lid
    \<and> lid \<in> set (dd_get (log_index_by_agent m) (al_agent_type entry))
    \<and> (case al_patient_id entry of
         None \<Rightarrow> True
       | Some p \<Rightarrow> p \<noteq> [] \<longrightarrow> lid \<in> set (dd_get (log_index_by_patient m) p))
    \<and> (case al_session_id entry of
         None \<Rightarrow> True
       | Some s \<Rightarrow> s \<noteq> [] \<longrightarrow> lid \<in> set (dd_get (log_index_by_session m) s)))"

definition entries_indexed :: "AuditTrailManager \<Rightarrow> bool" where
  "entries_indexed m = (\<forall>kv \<in> set (audit_logs m). entry_indexed m (fst kv) (snd kv))"


section \<open>Layer 5: bias monitor (app/governance/bias_monitor.py)\<close>

text \<open>
  A recorded outcome is the dictionary \<^verbatim>\<open>record_action_outcome\<close> builds (without its
  timestamp and metadata). Outcome values are Python floats; the model computes with
  reals, so \<^verbatim>\<open>statistics.mean\<close> is the exact mean, and the one float that is not a
  real, \<^verbatim>\<open>float('inf')\<close>, is a constructor of its own. Where a double rounds, the
  model and the code can differ: at group rates 0.6 and 0.75 the exact ratio is 4/5,
  not below a threshold of 0.8, while the double quotient is just below it. The
  theorems below do not depend on \<open>threshold_exceeded\<close>.
\<close>

record bias_record =
  br_agent_type :: string
  br_action_type :: string
  demographics :: py_dict
  br_outcome :: string
  outcome_value :: "real option"

datatype py_float = Finite real | Infinity

fun float_less :: "py_float \<Rightarrow> real \<Rightarrow> bool" where
  "float_less (Finite x) t = (x < t)"
| "float_less Infinity t = False"

fun float_plus :: "py_float \<Rightarrow> real \<Rightarrow> py_float" where
  "float_plus (Finite x) d = Finite (x + d)"
| "float_plus Infinity d = Infinity"

record BiasMetric =
  metric_id :: string
  metric_type :: string
  dimension :: string
  bm_agent_type :: AgentType
  bm_action_type :: string
  baseline_rate :: real
  observed_rate :: real
  disparity_ratio :: py_float
  threshold_exceeded :: bool
  sample_size :: nat
  confidence_interval :: "py_float \<times> py_float"
  protected_group :: string
  reference_group :: string
  protected_count :: nat
  reference_count :: nat

text \<open>
  \<^verbatim>\<open>ComplianceEvent\<close> without its description, a formatted text of the ratio.
\<close>

record ComplianceEvent =
  event_id :: string
  event_type :: string
  severity :: string
  affected_agents :: "AgentType list"
  remediation_required :: bool
  remediation_status :: "string option"

text \<open>
  The monitor's state. \<^verbatim>\<open>demographic_outcomes\<close>, which \<^verbatim>\<open>record_action_outcome\<close>
  fills and no calculation reads, is left out.
\<close>

record BiasMonitor =
  disparate_impact_threshold :: real
  metrics :: "(string \<times> BiasMetric) list"
  compliance_events :: "(string \<times> ComplianceEvent) list"
  action_records :: "(string \<times> bias_record list) list"

definition BiasMonitor_init :: "real \<Rightarrow> BiasMonitor" where
  "BiasMonitor_init t =
     \<lparr>disparate_impact_threshold = t, metrics = [], compliance_events = [],
      action_records = []\<rparr>"

definition records_key :: "AgentType \<Rightarrow> string \<Rightarrow> string" where
  "records_key a act = AgentType_value a @ ''_'' @ act"

definition record_action_outcome ::
  "BiasMonitor \<Rightarrow> AgentType \<Rightarrow> string \<Rightarrow> py_dict \<Rightarrow> string \<Rightarrow> real option \<Rightarrow> BiasMonitor" where
  "record_action_outcome b a act demo out val =
     b\<lparr>action_records :=
         dd_append (records_key a act)
           \<lparr>br_agent_type = AgentType_value a, br_action_type = act,
            demographics = demo, br_outcome = out, outcome_value = val\<rparr>
           (action_records b)\<rparr>"

text \<open>\<^verbatim>\<open>statistics.mean\<close> and \<^verbatim>\<open>statistics.stdev\<close> with their \<^verbatim>\<open>StatisticsError\<close>.\<close>

definition mean :: "real list \<Rightarrow> py_error + real" where
  "mean xs = (if xs = [] then Inl StatisticsError else Inr (sum_list xs / real (length xs)))"

definition stdev :: "real list \<Rightarrow> py_error + real" where
  "stdev xs =
     (if length xs < 2 then Inl StatisticsError
      else (let m = sum_list xs / real (length xs)
            in Inr (sqrt (sum_list (map (\<lambda>x. (x - m)\<^sup>2) xs) / real (length xs - 1)))))"

text \<open>Float division: \<^verbatim>\<open>ZeroDivisionError\<close> on a zero divisor.\<close>

definition py_truediv :: "real \<Rightarrow> real \<Rightarrow> py_error + real" where
  "py_truediv x y = (if y = 0 then Inl ZeroDivisionError else Inr (x / y))"

text \<open>
  The outcome value of one record, with the default for a missing value, and the loop
  of \<^verbatim>\<open>calculate_disparate_impact\<close> that sorts the values into the two groups
  (\<^verbatim>\<open>if ... elif ...\<close>: a record of the protected group is never counted as reference).
\<close>

definition record_value :: "bias_record \<Rightarrow> real" where
  "record_value r =
     (case outcome_value r of
        None \<Rightarrow> (if br_outcome r = ''POSITIVE'' then 1 else 0)
      | Some v \<Rightarrow> v)"

fun collect_outcomes ::
  "bias_record list \<Rightarrow> string \<Rightarrow> string \<Rightarrow> string \<Rightarrow> real list \<times> real list" where
  "collect_outcomes [] dimn prot ref = ([], [])"
| "collect_outcomes (r # rs) dimn prot ref =
     (let demo_value = map_of (demographics r) dimn;
          rest = collect_outcomes rs dimn prot ref
      in if demo_value = Some prot then (record_value r # fst rest, snd rest)
         else if demo_value = Some ref then (fst rest, record_value r # snd rest)
         else rest)"

definition create_compliance_event :: "BiasMonitor \<Rightarrow> BiasMetric \<Rightarrow> string \<Rightarrow> BiasMonitor" where
  "create_compliance_event b metric eid =
     b\<lparr>compliance_events :=
         AList.update eid
           \<lparr>event_id = eid, event_type = ''BIAS_DETECTED'', severity = ''WARNING'',
            affected_agents = [bm_agent_type metric], remediation_required = True,
            remediation_status = Some ''PENDING''\<rparr>
           (compliance_events b)\<rparr>"

text \<open>
  The ratio: the guarded division of the source. The interval: the \<^verbatim>\<open>try\<close> block,
  whose \<^verbatim>\<open>except Exception\<close> falls back to the ratio itself.
\<close>

definition disparity :: "real \<Rightarrow> real \<Rightarrow> py_error + py_float" where
  "disparity protected_rate reference_rate =
     (if reference_rate = 0
        then Inr (if protected_rate = 0 then Finite 1 else Infinity)
      else (case py_truediv protected_rate reference_rate of
              Inl e \<Rightarrow> Inl e
            | Inr q \<Rightarrow> Inr (Finite q)))"

definition interval :: "py_float \<Rightarrow> real list \<Rightarrow> real list \<Rightarrow> py_float \<times> py_float" where
  "interval ratio ps rs =
     (case (if length ps > 1 then stdev ps else Inr 0) of
        Inl e \<Rightarrow> (ratio, ratio)
      | Inr protected_stdev \<Rightarrow>
          (case (if length rs > 1 then stdev rs else Inr 0) of
             Inl e \<Rightarrow> (ratio, ratio)
           | Inr reference_stdev \<Rightarrow>
               (float_plus ratio (- (196 / 100 * max protected_stdev reference_stdev)),
                float_plus ratio (196 / 100 * max protected_stdev reference_stdev))))"

definition key_records :: "BiasMonitor \<Rightarrow> AgentType \<Rightarrow> string \<Rightarrow> bias_record list" where
  "key_records b a act = dd_get (action_records b) (records_key a act)"

text \<open>
  \<^verbatim>\<open>calculate_disparate_impact\<close>; \<open>mid\<close> and \<open>eid\<close> are the ids drawn for the metric
  and for the compliance event. The result is \<open>Inl\<close> when the source raises.
\<close>

definition calculate_disparate_impact ::
  "BiasMonitor \<Rightarrow> AgentType \<Rightarrow> string \<Rightarrow> string \<Rightarrow> string \<Rightarrow> string \<Rightarrow> string \<Rightarrow> string
     \<Rightarrow> py_error + (BiasMetric option \<times> BiasMonitor)" where
  "calculate_disparate_impact b a act dimn prot ref mid eid =
     (let records = key_records b a act in
      if length records < 10 then Inr (None, b)
      else
        (let protected_outcomes = fst (collect_outcomes records dimn prot ref);
             reference_outcomes = snd (collect_outcomes records dimn prot ref)
         in if length protected_outcomes < 5 \<or> length reference_outcomes < 5
              then Inr (None, b)
            else
              (case mean protected_outcomes of
                 Inl e \<Rightarrow> Inl e
               | Inr protected_rate \<Rightarrow>
                   (case mean reference_outcomes of
                      Inl e \<Rightarrow> Inl e
                    | Inr reference_rate \<Rightarrow>
                        (case disparity protected_rate reference_rate of
                           Inl e \<Rightarrow> Inl e
                         | Inr ratio \<Rightarrow>
                             (let exceeded = float_less ratio (disparate_impact_threshold b);
                                  metric =
                                    \<lparr>metric_id = mid,
                                     metric_type = ''DISPARATE_IMPACT'',
                                     dimension = dimn,
                                     bm_agent_type = a,
                                     bm_action_type = act,
                                     baseline_rate = reference_rate,
                                     observed_rate = protected_rate,
                                     disparity_ratio = ratio,
                                     threshold_exceeded = exceeded,
                                     sample_size = length protected_outcomes
                                                   + length reference_outcomes,
                                     confidence_interval =
                                       interval ratio protected_outcomes reference_outcomes,
                                     protected_group = prot,
                                     reference_group = ref,
                                     protected_count = length protected_outcomes,
                                     reference_count = length reference_outcomes\<rparr>;
                                  b1 = b\<lparr>metrics := AList.update mid metric (metrics b)\<rparr>
                              in Inr (Some metric,
                                      if exceeded then create_compliance_event b1 metric eid
                                      else b1)))))))"

text \<open>
  The number of recorded samples of a key that belong to a group: the records whose
  demographics give the group for the dimension.
\<close>

definition group_samples :: "bias_record list \<Rightarrow> string \<Rightarrow> string \<Rightarrow> nat" where
  "group_samples rs dimn g = length (filter (\<lambda>r. map_of (demographics r) dimn = Some g) rs)"


section \<open>The governance engine (app/governance/governance_engine.py)\<close>

text \<open>
  A handler returns a dictionary of which the engine reads \<^verbatim>\<open>success\<close> and
  \<^verbatim>\<open>error\<close> with \<^verbatim>\<open>.get\<close>; both may be missing. The \<^verbatim>\<open>result\<close> dictionary of an
  \<^verbatim>\<open>AgentResponse\<close> has one of three shapes.
\<close>

record HandlerResult =
  hr_success :: "bool option"
  hr_error :: "string option"
  hr_payload :: py_dict

datatype response_result =
    EscalationResult string
  | ApprovalQueued string int string
  | Executed HandlerResult

record AgentResponse =
  resp_success :: bool
  resp_action :: AgentAction
  resp_result :: "response_result option"
  resp_error :: "string option"
  escalation_required :: bool
  resp_escalation_reason :: "string option"

text \<open>
  The engine's state. Handlers and hooks are callables that receive the action object
  and may mutate it, so each returns the action as it leaves it; a handler either
  raises (\<open>Inl\<close> with the text of the exception) or returns its dictionary, and a hook
  that raises is only logged. The fallback manager is the module
  \<^verbatim>\<open>app/governance/fallback.py\<close>, which is not among the sources: its state is the
  type parameter \<open>'fb\<close>, and its two methods that \<^verbatim>\<open>process_action\<close> calls are
  arguments of \<open>process_action\<close>.
\<close>

record 'fb GovernanceEngine =
  rbac :: RBACManager
  risk_gates :: RiskGateManager
  audit_trail :: AuditTrailManager
  fallback :: 'fb
  action_handlers :: "string \<rightharpoonup> (AgentAction \<Rightarrow> AgentAction \<times> (string + HandlerResult))"
  pre_execution_hooks :: "(AgentAction \<Rightarrow> AgentAction) list"
  post_execution_hooks ::
    "(AgentAction \<Rightarrow> HandlerResult \<Rightarrow> AgentAction \<times> HandlerResult) list"

text \<open>The identifiers one call of \<^verbatim>\<open>process_action\<close> may draw.\<close>

record engine_ids =
  new_log_id :: string
  new_access_id :: string
  new_escalation_log_id :: string
  new_request_id :: string

definition execute_action ::
  "'fb GovernanceEngine \<Rightarrow> AgentAction \<Rightarrow> AgentAction \<times> HandlerResult" where
  "execute_action e a =
     (case action_handlers e (AgentType_value (agent_type a) @ ''_'' @ action_type a) of
        Some handler \<Rightarrow>
          (case handler a of
             (a', Inr r) \<Rightarrow> (a', r)
           | (a', Inl msg) \<Rightarrow>
               (a', \<lparr>hr_success = Some False, hr_error = Some msg, hr_payload = []\<rparr>))
      | None \<Rightarrow>
          (a, \<lparr>hr_success = Some True, hr_error = None,
               hr_payload = [(''message'', ''Action processed (no specific handler)'')]\<rparr>))"

definition result_success :: "HandlerResult \<Rightarrow> bool" where
  "result_success r = (case hr_success r of None \<Rightarrow> True | Some b \<Rightarrow> b)"

definition result_error :: "HandlerResult \<Rightarrow> string" where
  "result_error r = (case hr_error r of None \<Rightarrow> ''FAILED'' | Some msg \<Rightarrow> msg)"

text \<open>\<^verbatim>\<open>escalation_reason or "Automatic escalation"\<close>.\<close>

definition reason_or_default :: "string option \<Rightarrow> string" where
  "reason_or_default r =
     (case r of None \<Rightarrow> ''Automatic escalation''
      | Some s \<Rightarrow> if truthy (Some s) then s else ''Automatic escalation'')"

text \<open>
  The subject-access check of step 2: made only for a true \<^verbatim>\<open>action.patient_id\<close>,
  with access type \<^verbatim>\<open>WRITE\<close>; the result is the patient id and the reason of a
  denial, if there is one.
\<close>

definition patient_access_denial ::
  "RBACManager \<Rightarrow> AgentAction \<Rightarrow> string \<Rightarrow> (string \<times> string) option" where
  "patient_access_denial m a uid =
     (case patient_id a of
        None \<Rightarrow> None
      | Some pid \<Rightarrow>
          if truthy (Some pid) then
            (case check_patient_access m uid pid ''WRITE'' of
               (has_access, access_reason) \<Rightarrow>
                 if \<not> has_access then Some (pid, access_reason) else None)
          else None)"

text \<open>The four terminal branches before execution, and the execute path.\<close>

definition reject_permission ::
  "'fb GovernanceEngine \<Rightarrow> AgentAction \<Rightarrow> string \<Rightarrow> string option \<Rightarrow> string option
     \<Rightarrow> engine_ids \<Rightarrow> string \<Rightarrow> AgentResponse \<times> 'fb GovernanceEngine" where
  "reject_permission e a uid session ip ids reason =
     (\<lparr>resp_success = False, resp_action = a\<lparr>status := REJECTED\<rparr>, resp_result = None,
       resp_error = Some (''Permission denied: '' @ reason),
       escalation_required = False, resp_escalation_reason = None\<rparr>,
      e\<lparr>audit_trail :=
          snd (log_action (audit_trail e) (a\<lparr>status := REJECTED\<rparr>) session (Some uid) ip
                 (new_log_id ids))\<rparr>)"

definition reject_patient_access ::
  "'fb GovernanceEngine \<Rightarrow> AgentAction \<Rightarrow> string \<Rightarrow> string \<Rightarrow> string option \<Rightarrow> string option
     \<Rightarrow> engine_ids \<Rightarrow> string \<Rightarrow> AgentResponse \<times> 'fb GovernanceEngine" where
  "reject_patient_access e a pid uid session ip ids access_reason =
     (\<lparr>resp_success = False, resp_action = a\<lparr>status := REJECTED\<rparr>, resp_result = None,
       resp_error = Some (''Patient access denied: '' @ access_reason),
       escalation_required = False, resp_escalation_reason = None\<rparr>,
      e\<lparr>audit_trail :=
          snd (log_access (audit_trail e) uid
                 (case get_user (rbac e) uid of
                    Some u \<Rightarrow> UserRole_value (role u)
                  | None \<Rightarrow> ''UNKNOWN'')
                 pid (action_type a) ''WRITE'' False (Some access_reason) ip session
                 (new_access_id ids))\<rparr>)"

definition escalate ::
  "('fb \<Rightarrow> AgentAction \<Rightarrow> 'trigger \<Rightarrow> string \<Rightarrow> string \<times> 'fb \<times> AgentAction)
     \<Rightarrow> 'fb GovernanceEngine \<Rightarrow> AgentAction \<Rightarrow> string \<Rightarrow> string option \<Rightarrow> string option
     \<Rightarrow> engine_ids \<Rightarrow> 'trigger \<Rightarrow> string option
     \<Rightarrow> py_error + (AgentResponse \<times> 'fb GovernanceEngine)" where
  "escalate trigger_escalation e a uid session ip ids trigger why =
     (case trigger_escalation (fallback e) a trigger (reason_or_default why) of
        (esc_id, fb, a1) \<Rightarrow>
          (case log_escalation (audit_trail e) (agent_type a1) (action_id a1)
                  (reason_or_default why) (confidence_score a1)
                  (RiskLevel_value (risk_level a1)) None (new_escalation_log_id ids) of
             Inl err \<Rightarrow> Inl err
           | Inr (lg, trail) \<Rightarrow>
               Inr (\<lparr>resp_success = False, resp_action = a1,
                     resp_result = Some (EscalationResult esc_id), resp_error = None,
                     escalation_required = True,
                     resp_escalation_reason = why\<rparr>,
                    e\<lparr>fallback := fb,
                      audit_trail :=
                        snd (log_action trail a1 session (Some uid) ip (new_log_id ids))\<rparr>)))"

definition run_and_record ::
  "'fb GovernanceEngine \<Rightarrow> AgentAction \<Rightarrow> AuditLogEntry \<Rightarrow> AgentResponse \<times> 'fb GovernanceEngine" where
  "run_and_record e a audit_entry =
     (case execute_action e (foldl (\<lambda>x hook. hook x) a (pre_execution_hooks e)) of
        (a1, r1) \<Rightarrow>
          (case foldl (\<lambda>x hook. hook (fst x) (snd x)) (a1, r1) (post_execution_hooks e) of
             (a2, r) \<Rightarrow>
               if result_success r then
                 (\<lparr>resp_success = result_success r,
                   resp_action = a2\<lparr>status := COMPLETED\<rparr>,
                   resp_result = Some (Executed r), resp_error = None,
                   escalation_required = False, resp_escalation_reason = None\<rparr>,
                  e\<lparr>audit_trail :=
                      snd (update_log_outcome (audit_trail e) (log_id audit_entry)
                             ''SUCCESS'' COMPLETED None)\<rparr>)
               else
                 (\<lparr>resp_success = result_success r,
                   resp_action = a2\<lparr>status := FAILED\<rparr>,
                   resp_result = Some (Executed r), resp_error = None,
                   escalation_required = False, resp_escalation_reason = None\<rparr>,
                  e\<lparr>audit_trail :=
                      snd (update_log_outcome (audit_trail e) (log_id audit_entry)
                             (result_error r) FAILED None)\<rparr>)))"

definition gate_and_run ::
  "'fb GovernanceEngine \<Rightarrow> AgentAction \<Rightarrow> string \<Rightarrow> string option \<Rightarrow> string option
     \<Rightarrow> engine_ids \<Rightarrow> py_error + (AgentResponse \<times> 'fb GovernanceEngine)" where
  "gate_and_run e a uid session ip ids =
     (case evaluate_gate (risk_gates e) a (new_request_id ids) of
        Inl err \<Rightarrow> Inl err
      | Inr ((can_proceed, approval_request), gates, a1) \<Rightarrow>
          (case log_action (audit_trail e) a1 session (Some uid) ip (new_log_id ids) of
             (audit_entry, trail) \<Rightarrow>
               if \<not> can_proceed then
                 (case approval_request of
                    Some request \<Rightarrow>
                      Inr (\<lparr>resp_success = False, resp_action = a1,
                            resp_result =
                              Some (ApprovalQueued (request_id request)
                                      (required_approvers request) ''AWAITING_APPROVAL''),
                            resp_error = None,
                            escalation_required = False, resp_escalation_reason = None\<rparr>,
                           e\<lparr>risk_gates := gates, audit_trail := trail\<rparr>)
                  | None \<Rightarrow>
                      Inr (\<lparr>resp_success = False, resp_action = a1, resp_result = None,
                            resp_error = Some ''Action blocked by risk gate'',
                            escalation_required = False, resp_escalation_reason = None\<rparr>,
                           e\<lparr>risk_gates := gates, audit_trail := trail\<rparr>))
               else
                 Inr (run_and_record (e\<lparr>risk_gates := gates, audit_trail := trail\<rparr>)
                        a1 audit_entry)))"

text \<open>
  \<^verbatim>\<open>process_action\<close>. \<open>evaluate_action\<close> and \<open>trigger_escalation\<close> stand for the two
  methods of the fallback manager; the latter returns the escalation id, the manager's
  new state and the action as it leaves it.
\<close>

definition process_action ::
  "('fb \<Rightarrow> AgentAction \<Rightarrow> bool \<times> 'trigger option \<times> string option)
     \<Rightarrow> ('fb \<Rightarrow> AgentAction \<Rightarrow> 'trigger \<Rightarrow> string \<Rightarrow> string \<times> 'fb \<times> AgentAction)
     \<Rightarrow> 'fb GovernanceEngine \<Rightarrow> AgentAction \<Rightarrow> string \<Rightarrow> string option \<Rightarrow> string option
     \<Rightarrow> engine_ids \<Rightarrow> py_error + (AgentResponse \<times> 'fb GovernanceEngine)" where
  "process_action evaluate_action trigger_escalation e a uid session ip ids =
     (case check_permission (rbac e) uid (agent_type a) (action_type a) True False of
        (has_permission, reason) \<Rightarrow>
          if \<not> has_permission then Inr (reject_permission e a uid session ip ids reason)
          else
            (case patient_access_denial (rbac e) a uid of
               Some (pid, access_reason) \<Rightarrow>
                 Inr (reject_patient_access e a pid uid session ip ids access_reason)
             | None \<Rightarrow>
                 (case evaluate_action (fallback e) (a\<lparr>risk_level := classify_risk a\<rparr>) of
                    (should_escalate, trigger, why) \<Rightarrow>
                      (case (if should_escalate then trigger else None) of
                         Some t \<Rightarrow>
                           escalate trigger_escalation e (a\<lparr>risk_level := classify_risk a\<rparr>)
                             uid session ip ids t why
                       | None \<Rightarrow>
                           gate_and_run e (a\<lparr>risk_level := classify_risk a\<rparr>)
                             uid session ip ids))))"

text \<open>
  The call ends in the subject-access denial of step 2: the permission check passes
  and the subject-access check refuses.
\<close>

definition patient_access_denied :: "'fb GovernanceEngine \<Rightarrow> AgentAction \<Rightarrow> string \<Rightarrow> bool" where
  "patient_access_denied e a uid =
     (fst (check_permission (rbac e) uid (agent_type a) (action_type a) True False)
      \<and> patient_access_denial (rbac e) a uid \<noteq> None)"


text \<open>
  What a call leaves in the audit trail. \<open>logs_one_entry\<close>: the audit log of the new
  state is the old one followed by exactly one entry, under the drawn log id, and the
  status of that entry is the status of the action in the response.
  \<open>logs_access_denial\<close>: the audit log is unchanged, one unsuccessful \<^verbatim>\<open>AccessLog\<close> is
  stored under the drawn access id, and the action in the response is \<^verbatim>\<open>REJECTED\<close>.
\<close>

definition logs_one_entry ::
  "'fb GovernanceEngine \<Rightarrow> AgentResponse \<Rightarrow> 'fb GovernanceEngine \<Rightarrow> string \<Rightarrow> bool" where
  "logs_one_entry e r e' lid =
     (\<exists>entry. audit_logs (audit_trail e') = audit_logs (audit_trail e) @ [(lid, entry)]
            \<and> log_id entry = lid
            \<and> al_status entry = status (resp_action r))"

definition logs_access_denial ::
  "'fb GovernanceEngine \<Rightarrow> AgentResponse \<Rightarrow> 'fb GovernanceEngine \<Rightarrow> string \<Rightarrow> bool" where
  "logs_access_denial e r e' aid =
     (audit_logs (audit_trail e') = audit_logs (audit_trail e)
      \<and> (\<exists>l. access_logs (audit_trail e') = AList.update aid l (access_logs (audit_trail e))
             \<and> \<not> acc_success l)
      \<and> status (resp_action r) = REJECTED)"


section \<open>The fallback manager, and example states\<close>

text \<open>
  Modelled from the spec: the fallback manager (\<^verbatim>\<open>app/governance/fallback.py\<close> is
  not among the sources). The spec gives it a confidence threshold, says that
  evaluation triggers on a confidence below the threshold, and that triggering creates
  one escalation, returns its id and leaves the action \<^verbatim>\<open>ESCALATED\<close>. The id of
  the new escalation is the next of a supply held by the state. The theorems about
  \<open>process_action\<close> hold for every pair of fallback methods; this instance is used
  where a concrete engine is run.
\<close>

datatype EscalationTrigger = LOW_CONFIDENCE | SAFETY_CONCERN | EXECUTION_ERROR

record FallbackManager =
  fb_confidence_threshold :: real
  fb_escalations :: "(string \<times> string \<times> EscalationTrigger \<times> string) list"
  fb_id_supply :: nat

definition fb_evaluate_action ::
  "FallbackManager \<Rightarrow> AgentAction \<Rightarrow> bool \<times> EscalationTrigger option \<times> string option" where
  "fb_evaluate_action fb a =
     (if confidence_score a < fb_confidence_threshold fb
        then (True, Some LOW_CONFIDENCE, Some ''Confidence below threshold'')
      else (False, None, None))"

definition fb_trigger_escalation ::
  "FallbackManager \<Rightarrow> AgentAction \<Rightarrow> EscalationTrigger \<Rightarrow> string
     \<Rightarrow> string \<times> FallbackManager \<times> AgentAction" where
  "fb_trigger_escalation fb a trigger reason =
     (let esc_id = ''esc-'' @ replicate (fb_id_supply fb) (CHR ''i'')
      in (esc_id,
          fb\<lparr>fb_escalations := fb_escalations fb @ [(esc_id, action_id a, trigger, reason)],
             fb_id_supply := Suc (fb_id_supply fb)\<rparr>,
          a\<lparr>status := ESCALATED\<rparr>))"

text \<open>Concrete users, actions, requests and managers for the worked instances below.\<close>

definition example_user :: "UserRole \<Rightarrow> bool \<Rightarrow> string list \<Rightarrow> User" where
  "example_user r active overrides =
     \<lparr>user_id = ''u1'', username = ''pat'', role = r, is_active = active,
      permissions_override = overrides\<rparr>"

definition example_rbac :: "UserRole \<Rightarrow> bool \<Rightarrow> string list \<Rightarrow> RBACManager" where
  "example_rbac r active overrides =
     register_user RBACManager_init (example_user r active overrides)"

definition example_action ::
  "AgentType \<Rightarrow> string \<Rightarrow> string option \<Rightarrow> RiskLevel \<Rightarrow> real \<Rightarrow> AgentAction" where
  "example_action agent act pid lvl conf =
     \<lparr>action_id = ''0123456789abcdef'', agent_type = agent, action_type = act,
      parameters = [], patient_id = pid, risk_level = lvl, confidence_score = conf,
      rationale = ''routine'', status = PENDING\<rparr>"

definition example_request :: "int \<Rightarrow> ApprovalRequest" where
  "example_request n =
     \<lparr>request_id = ''R1'', req_action_id = ''0123456789abcdef'',
      req_agent_type = MEDICATION, req_action_type = ''medication_change'',
      req_patient_id = Some ''P1'', req_risk_level = CRITICAL,
      req_confidence_score = 99 / 100, req_rationale = ''RISK_LEVEL: routine'',
      details = [], required_approvers = n, current_approvals = 0, approved_by = [],
      rejected_by = None, rejection_reason = None, req_status = ''PENDING'',
      priority = ''URGENT''\<rparr>"

definition example_gate :: "int \<Rightarrow> RiskGateManager" where
  "example_gate n =
     (RiskGateManager_init ''r1'' ''r2'' ''r3'' ''r4'')
       \<lparr>pending_approvals := [''R1'' \<mapsto> example_request n]\<rparr>"

definition example_ids :: engine_ids where
  "example_ids =
     \<lparr>new_log_id = ''L1'', new_access_id = ''X1'', new_escalation_log_id = ''E1'',
      new_request_id = ''R2''\<rparr>"

definition example_engine :: "UserRole \<Rightarrow> FallbackManager GovernanceEngine" where
  "example_engine r =
     \<lparr>rbac = example_rbac r True [],
      risk_gates = RiskGateManager_init ''r1'' ''r2'' ''r3'' ''r4'',
      audit_trail = AuditTrailManager_init,
      fallback = \<lparr>fb_confidence_threshold = 85 / 100, fb_escalations = [],
                  fb_id_supply = 0\<rparr>,
      action_handlers = Map.empty,
      pre_execution_hooks = [],
      post_execution_hooks = []\<rparr>"

definition example_ops :: "audit_op list" where
  "example_ops =
     [LogAction (example_action INTAKE ''register_patient'' (Some ''P1'') LOW 1)
        (Some ''S1'') (Some ''u1'') None ''L1'',
      LogApiCall \<lparr>call_id = ''C1'', service_name = ''twilio'', endpoint = ''/sms'',
                  status_code = 200, latency_ms = 12, api_timestamp = ''t0''\<rparr> ''01234567'',
      UpdateLogOutcome ''L1'' ''SUCCESS'' COMPLETED None,
      RecordHumanOverride ''L1'' ''u1'' ''checked'' ''t1'',
      UpdateLogOutcome ''L9'' ''SUCCESS'' COMPLETED None]"

definition example_ops_empty_id :: "audit_op list" where
  "example_ops_empty_id =
     [LogAction (example_action INTAKE ''register_patient'' (Some []) LOW 1)
        None None None ''L1'']"


text \<open>
  A monitor with ten recorded outcomes of one key: five of group F without an outcome
  value and with a non-positive outcome, five of group M with outcome value 0.
\<close>

definition example_monitor :: BiasMonitor where
  "example_monitor =
     foldl (\<lambda>b (g, v). record_action_outcome b INTAKE ''register_patient''
                          [(''gender'', g)] ''NEGATIVE'' v)
       (BiasMonitor_init (8 / 10))
       [(''F'', None), (''M'', Some 0), (''F'', None), (''M'', Some 0), (''F'', None),
        (''M'', Some 0), (''F'', None), (''M'', Some 0), (''F'', None), (''M'', Some 0)]"


section \<open>Theorems: role-based access control\<close>

text \<open>
  C6. A registered user whose \<open>is_active\<close> flag is false is refused by both
  \<open>check_permission\<close> and \<open>check_patient_access\<close>, for every agent type, action,
  capability requirement, patient and access type, whatever the user's
  \<open>permissions_override\<close> list and whatever the permission cache hold: the
  inactive test comes before the override test.
\<close>

theorem inactive_user_denied:
  assumes "users m uid = Some u" and "\<not> is_active u"
  shows "fst (check_permission m uid a act rw ra) = False
       \<and> fst (check_patient_access m uid pid access_type) = False"
  using assms by (simp add: check_permission_def check_patient_access_def)

text \<open>
  An inactive system administrator holding an override for \<^verbatim>\<open>submit_claim\<close> is
  refused that very action.
\<close>

theorem inactive_user_denied_witness:
  "users (example_rbac SYSTEM_ADMIN False [''submit_claim'']) ''u1''
     = Some (example_user SYSTEM_ADMIN False [''submit_claim''])
   \<and> \<not> is_active (example_user SYSTEM_ADMIN False [''submit_claim''])
   \<and> ''submit_claim'' \<in> set (permissions_override (example_user SYSTEM_ADMIN False [''submit_claim'']))
   \<and> fst (check_permission (example_rbac SYSTEM_ADMIN False [''submit_claim'']) ''u1''
             BILLING ''submit_claim'' True False) = False
   \<and> fst (check_patient_access (example_rbac SYSTEM_ADMIN False [''submit_claim'']) ''u1''
             ''P1'' ''VIEW'') = False"
  using inactive_user_denied
          [of "example_rbac SYSTEM_ADMIN False [''submit_claim'']" "''u1''"
              "example_user SYSTEM_ADMIN False [''submit_claim'']"
              BILLING "''submit_claim''" True False "''P1''" "''VIEW''"]
  by (simp add: example_rbac_def example_user_def register_user_def)


section \<open>Theorems: risk-tiered gates\<close>

lemma get_rule_returns:
  "rules g \<noteq> [] \<Longrightarrow> \<exists>rule. get_rule_for_risk_level g lvl = Inr rule"
  by (cases "rules g") (auto simp: get_rule_for_risk_level_def split: option.splits)

lemma evaluate_gate_returns:
  assumes "rules g \<noteq> []"
  shows "\<exists>cp req g' a'. evaluate_gate g a rid = Inr ((cp, req), g', a')"
proof -
  obtain rule where "get_rule_for_risk_level g (gate_risk_level a) = Inr rule"
    using get_rule_returns[OF assms] by blast
  then show ?thesis
    by (auto simp: evaluate_gate_def blocked_def create_approval_request_def Let_def)
qed

lemma default_rules_in_order:
  "distinct [i1, i2, i3, i4] \<Longrightarrow>
   map snd (initialize_default_rules i1 i2 i3 i4) = default_rules i1 i2 i3 i4"
  by (auto simp: initialize_default_rules_def default_rules_def)

lemma default_rules_nonempty: "rules (RiskGateManager_init i1 i2 i3 i4) \<noteq> []"
  by (simp add: RiskGateManager_init_def initialize_default_rules_def default_rules_def)

lemma gate_risk_level_is_field: "gate_risk_level a = risk_level a"
  by (cases "risk_level a") (simp_all add: gate_risk_level_def)

text \<open>
  C4, as stated, fails for an action that only classifies to CRITICAL. The gate reads
  \<^verbatim>\<open>action.risk_level or self.classify_risk(action)\<close>, and a \<^verbatim>\<open>RiskLevel\<close> is never
  false, so it never classifies: \<^verbatim>\<open>code_blue_activation\<close> carrying the default risk
  level LOW and confidence 0.99 passes the default gate.
\<close>

theorem classified_critical_passes_counterexample:
  "classify_risk (example_action MEDICATION ''code_blue_activation'' None LOW (99 / 100))
     = CRITICAL
   \<and> evaluate_gate (RiskGateManager_init ''r1'' ''r2'' ''r3'' ''r4'')
        (example_action MEDICATION ''code_blue_activation'' None LOW (99 / 100)) ''R2''
     = Inr ((True, None), RiskGateManager_init ''r1'' ''r2'' ''r3'' ''r4'',
            (example_action MEDICATION ''code_blue_activation'' None LOW (99 / 100))
              \<lparr>status := APPROVED\<rparr>)"
  by (simp add: classify_risk_def critical_actions_def example_action_def evaluate_gate_def
                gate_risk_level_def get_rule_for_risk_level_def RiskGateManager_init_def
                initialize_default_rules_def default_rules_def)

text \<open>
  C4, amended. For every non-empty rule dictionary (the default one included) and
  every confidence score: an action whose \<open>risk_level\<close> field is CRITICAL is blocked,
  the gate returning \<open>can_proceed = False\<close> together with an approval request; and an
  action that classifies to CRITICAL is blocked once its \<open>risk_level\<close> field has been
  set to its classification, which is what \<open>process_action\<close> does before it calls the
  gate. The gate itself does not classify.
\<close>

theorem critical_always_blocked:
  assumes "rules g \<noteq> []"
  shows "(risk_level a = CRITICAL \<longrightarrow>
            (\<exists>request g' a'. evaluate_gate g a rid = Inr ((False, Some request), g', a')))
       \<and> (classify_risk a = CRITICAL \<longrightarrow>
            (\<exists>request g' a'. evaluate_gate g (a\<lparr>risk_level := classify_risk a\<rparr>) rid
                               = Inr ((False, Some request), g', a')))"
proof -
  obtain rule where rule: "get_rule_for_risk_level g CRITICAL = Inr rule"
    using get_rule_returns[OF assms] by blast
  have "\<exists>request g' a'. evaluate_gate g b rid = Inr ((False, Some request), g', a')"
    if "risk_level b = CRITICAL" for b
    using that rule
    by (simp add: evaluate_gate_def gate_risk_level_is_field blocked_def
                  create_approval_request_def Let_def)
  then show ?thesis by simp
qed

theorem critical_always_blocked_witness:
  "rules (RiskGateManager_init ''r1'' ''r2'' ''r3'' ''r4'') \<noteq> []
   \<and> risk_level (example_action MEDICATION ''code_blue_activation'' None CRITICAL 1) = CRITICAL
   \<and> classify_risk (example_action MEDICATION ''code_blue_activation'' None CRITICAL 1)
       = CRITICAL
   \<and> (\<exists>request g' a'.
        evaluate_gate (RiskGateManager_init ''r1'' ''r2'' ''r3'' ''r4'')
          (example_action MEDICATION ''code_blue_activation'' None CRITICAL 1) ''R2''
        = Inr ((False, Some request), g', a'))
   \<and> (\<exists>request g' a'.
        evaluate_gate (RiskGateManager_init ''r1'' ''r2'' ''r3'' ''r4'')
          ((example_action MEDICATION ''code_blue_activation'' None CRITICAL 1)
             \<lparr>risk_level :=
                classify_risk (example_action MEDICATION ''code_blue_activation'' None CRITICAL 1)\<rparr>)
          ''R2''
        = Inr ((False, Some request), g', a'))"
proof -
  have r: "rules (RiskGateManager_init ''r1'' ''r2'' ''r3'' ''r4'') \<noteq> []"
    by (rule default_rules_nonempty)
  have l: "risk_level (example_action MEDICATION ''code_blue_activation'' None CRITICAL 1)
             = CRITICAL"
    by (simp add: example_action_def)
  have c: "classify_risk (example_action MEDICATION ''code_blue_activation'' None CRITICAL 1)
             = CRITICAL"
    by (simp add: classify_risk_def critical_actions_def example_action_def)
  show ?thesis
    using critical_always_blocked
            [OF r, of "example_action MEDICATION ''code_blue_activation'' None CRITICAL 1"
               "''R2''"] r l c
    by simp
qed

text \<open>
  C5. Under the default rule set (the four default rules, under four distinct rule
  ids), an action of risk level LOW whose confidence score is at least the confidence
  threshold of the rule the gate looks up for LOW passes: the gate returns
  \<open>can_proceed = True\<close> and no approval request, stores no request, and leaves the
  action APPROVED.
\<close>

theorem low_risk_auto_approved:
  assumes "distinct [i1, i2, i3, i4]"
    and "rules g = initialize_default_rules i1 i2 i3 i4"
    and "gate_risk_level a = LOW"
    and "get_rule_for_risk_level g LOW = Inr rule"
    and "confidence_threshold rule \<le> confidence_score a"
  shows "evaluate_gate g a rid = Inr ((True, None), g, a\<lparr>risk_level := LOW, status := APPROVED\<rparr>)"
  using assms default_rules_in_order[OF assms(1)]
  by (auto simp: evaluate_gate_def get_rule_for_risk_level_def default_rules_def)

theorem low_risk_auto_approved_witness:
  "distinct [''r1'', ''r2'', ''r3'', ''r4'']
   \<and> rules (RiskGateManager_init ''r1'' ''r2'' ''r3'' ''r4'')
       = initialize_default_rules ''r1'' ''r2'' ''r3'' ''r4''
   \<and> gate_risk_level (example_action SCHEDULING ''check_availability'' None LOW (7 / 10)) = LOW
   \<and> get_rule_for_risk_level (RiskGateManager_init ''r1'' ''r2'' ''r3'' ''r4'') LOW
       = Inr (hd (default_rules ''r1'' ''r2'' ''r3'' ''r4''))
   \<and> confidence_threshold (hd (default_rules ''r1'' ''r2'' ''r3'' ''r4''))
       \<le> confidence_score (example_action SCHEDULING ''check_availability'' None LOW (7 / 10))
   \<and> evaluate_gate (RiskGateManager_init ''r1'' ''r2'' ''r3'' ''r4'')
        (example_action SCHEDULING ''check_availability'' None LOW (7 / 10)) ''R2''
       = Inr ((True, None), RiskGateManager_init ''r1'' ''r2'' ''r3'' ''r4'',
              (example_action SCHEDULING ''check_availability'' None LOW (7 / 10))
                \<lparr>risk_level := LOW, status := APPROVED\<rparr>)"
proof -
  have d: "distinct [''r1'', ''r2'', ''r3'', ''r4'']" by simp
  have r: "rules (RiskGateManager_init ''r1'' ''r2'' ''r3'' ''r4'')
             = initialize_default_rules ''r1'' ''r2'' ''r3'' ''r4''"
    by (simp add: RiskGateManager_init_def)
  have l: "gate_risk_level (example_action SCHEDULING ''check_availability'' None LOW (7 / 10)) = LOW"
    by (simp add: gate_risk_level_def example_action_def)
  have g: "get_rule_for_risk_level (RiskGateManager_init ''r1'' ''r2'' ''r3'' ''r4'') LOW
             = Inr (hd (default_rules ''r1'' ''r2'' ''r3'' ''r4''))"
    using default_rules_in_order[OF d]
    by (simp add: get_rule_for_risk_level_def r default_rules_def)
  have c: "confidence_threshold (hd (default_rules ''r1'' ''r2'' ''r3'' ''r4''))
             \<le> confidence_score (example_action SCHEDULING ''check_availability'' None LOW (7 / 10))"
    by (simp add: default_rules_def example_action_def)
  show ?thesis
    using low_risk_auto_approved[OF d r l g c, of "''R2''"] d r l g c by simp
qed

lemma process_approval_approve:
  "pending_approvals g rid = Some r \<Longrightarrow>
   process_approval g rid x True reason =
     (required_approvers r \<le> current_approvals r + 1,
      g\<lparr>pending_approvals := (pending_approvals g)(rid \<mapsto>
          r\<lparr>approved_by := approved_by r @ [x],
            current_approvals := current_approvals r + 1,
            req_status :=
              (if required_approvers r \<le> current_approvals r + 1 then ''APPROVED''
               else req_status r)\<rparr>)\<rparr>)"
  by (simp add: process_approval_def Let_def)

lemma process_approval_reject:
  "pending_approvals g rid = Some r \<Longrightarrow>
   process_approval g rid x False reason =
     (False,
      g\<lparr>pending_approvals := (pending_approvals g)(rid \<mapsto>
          r\<lparr>req_status := ''REJECTED'', rejected_by := Some x,
            rejection_reason := reason\<rparr>)\<rparr>)"
  by (simp add: process_approval_def)

text \<open>
  C2, as stated, fails: \<open>process_approval\<close> never looks at the status of
  the request, so a third approval of a request that two approvers have already
  approved is not a no-op. It reports full approval again and raises the counter to 3.
\<close>

theorem approval_third_call_counterexample:
  "fst (process_approval
          (process_approvals (example_gate 2) ''R1''
             [(''alice'', True, None), (''bob'', True, None)])
          ''R1'' ''carol'' True None) = True
   \<and> map_option current_approvals
        (pending_approvals
           (process_approvals (example_gate 2) ''R1''
              [(''alice'', True, None), (''bob'', True, None), (''carol'', True, None)]) ''R1'')
       = Some 3
   \<and> map_option approved_by
        (pending_approvals
           (process_approvals (example_gate 2) ''R1''
              [(''alice'', True, None), (''bob'', True, None), (''carol'', True, None)]) ''R1'')
       = Some [''alice'', ''bob'', ''carol'']"
  by (simp add: example_gate_def example_request_def process_approval_def)

text \<open>
  C2, amended. For a request with \<open>required_approvers = 2\<close> and no approval yet: the
  first approving call returns False, records the approver and leaves the status as it
  was; the second returns True and sets the status to APPROVED with two approvers; a
  third approving call is processed like any other: it returns True again, appends its
  approver and raises the counter to 3, the status staying APPROVED.
\<close>

theorem approval_consensus:
  assumes "pending_approvals g rid = Some r"
    and "required_approvers r = 2" and "current_approvals r = 0"
  shows "fst (process_approval g rid x1 True n1) = False
    \<and> pending_approvals (process_approvals g rid [(x1, True, n1)]) rid
        = Some (r\<lparr>approved_by := approved_by r @ [x1], current_approvals := 1\<rparr>)
    \<and> fst (process_approval (process_approvals g rid [(x1, True, n1)]) rid x2 True n2) = True
    \<and> pending_approvals (process_approvals g rid [(x1, True, n1), (x2, True, n2)]) rid
        = Some (r\<lparr>approved_by := approved_by r @ [x1, x2], current_approvals := 2,
                 req_status := ''APPROVED''\<rparr>)
    \<and> fst (process_approval (process_approvals g rid [(x1, True, n1), (x2, True, n2)])
             rid x3 True n3) = True
    \<and> pending_approvals
        (process_approvals g rid [(x1, True, n1), (x2, True, n2), (x3, True, n3)]) rid
        = Some (r\<lparr>approved_by := approved_by r @ [x1, x2, x3], current_approvals := 3,
                 req_status := ''APPROVED''\<rparr>)"
  using assms by (simp add: process_approval_approve)

theorem approval_consensus_witness:
  "pending_approvals (example_gate 2) ''R1'' = Some (example_request 2)
   \<and> required_approvers (example_request 2) = 2
   \<and> current_approvals (example_request 2) = 0
   \<and> fst (process_approval (example_gate 2) ''R1'' ''alice'' True None) = False
   \<and> fst (process_approval
            (process_approvals (example_gate 2) ''R1'' [(''alice'', True, None)])
            ''R1'' ''bob'' True None) = True
   \<and> pending_approvals
        (process_approvals (example_gate 2) ''R1''
           [(''alice'', True, None), (''bob'', True, None)]) ''R1''
       = Some ((example_request 2)
                 \<lparr>approved_by := [''alice'', ''bob''], current_approvals := 2,
                  req_status := ''APPROVED''\<rparr>)"
  using approval_consensus
          [of "example_gate 2" "''R1''" "example_request 2"
              "''alice''" None "''bob''" None "''carol''" None]
  by (simp add: example_gate_def example_request_def)

text \<open>
  C3, as stated, fails: a rejected request is approved by a later approval
  that brings the counter to the required number. Here one approver is required.
\<close>

theorem rejection_overturned_counterexample:
  "map_option req_status
     (pending_approvals
        (snd (process_approval (example_gate 1) ''R1'' ''alice'' False None)) ''R1'')
     = Some ''REJECTED''
   \<and> map_option req_status
       (pending_approvals
          (process_approvals (example_gate 1) ''R1''
             [(''alice'', False, None), (''bob'', True, None)]) ''R1'')
     = Some ''APPROVED''"
  by (simp add: example_gate_def example_request_def process_approval_def)

lemma rejected_stays_rejected:
  "pending_approvals g rid = Some r \<Longrightarrow> req_status r = ''REJECTED'' \<Longrightarrow>
   current_approvals r + approvals_count calls < required_approvers r \<Longrightarrow>
   \<exists>r'. pending_approvals (process_approvals g rid calls) rid = Some r'
        \<and> req_status r' = ''REJECTED''"
proof (induction calls arbitrary: g r)
  case Nil
  then show ?case by simp
next
  case (Cons c calls)
  obtain x b n where c: "c = (x, b, n)" by (cases c) auto
  show ?case
  proof (cases b)
    case True
    with Cons.prems c
    have lt: "current_approvals r + 1 + approvals_count calls < required_approvers r"
      by (simp add: approvals_count_def)
    have "approvals_count calls \<ge> 0" by (simp add: approvals_count_def)
    with lt have nf: "\<not> required_approvers r \<le> current_approvals r + 1" by arith
    let ?r1 = "r\<lparr>approved_by := approved_by r @ [x],
                  current_approvals := current_approvals r + 1\<rparr>"
    let ?g1 = "g\<lparr>pending_approvals := (pending_approvals g)(rid \<mapsto> ?r1)\<rparr>"
    have step: "snd (process_approval g rid x True n) = ?g1"
      using Cons.prems(1) nf by (simp add: process_approval_approve)
    have "\<exists>r'. pending_approvals (process_approvals ?g1 rid calls) rid = Some r'
              \<and> req_status r' = ''REJECTED''"
      by (rule Cons.IH[of ?g1 ?r1]) (use Cons.prems lt in simp_all)
    then show ?thesis using c True step by simp
  next
    case False
    with Cons.prems c
    have lt: "current_approvals r + approvals_count calls < required_approvers r"
      by (simp add: approvals_count_def)
    let ?r1 = "r\<lparr>req_status := ''REJECTED'', rejected_by := Some x, rejection_reason := n\<rparr>"
    let ?g1 = "g\<lparr>pending_approvals := (pending_approvals g)(rid \<mapsto> ?r1)\<rparr>"
    have step: "snd (process_approval g rid x False n) = ?g1"
      using Cons.prems(1) by (simp add: process_approval_reject)
    have "\<exists>r'. pending_approvals (process_approvals ?g1 rid calls) rid = Some r'
              \<and> req_status r' = ''REJECTED''"
      by (rule Cons.IH[of ?g1 ?r1]) (use lt in simp_all)
    then show ?thesis using c False step by simp
  qed
qed

text \<open>
  C3, amended. A rejecting call on a stored request returns False and sets the status
  to REJECTED, whatever the request's counter and status, leaving the counter and the
  required number as they were. After it the status is still REJECTED at the end of
  every run of further calls, approving or rejecting, in which the approvals do not
  bring the counter up to \<open>required_approvers\<close>; and a single further approval that
  brings the counter up to \<open>required_approvers\<close> sets the status to APPROVED.
\<close>

theorem rejection_sets_rejected:
  assumes "pending_approvals g rid = Some r"
  shows "fst (process_approval g rid x False reason) = False
     \<and> pending_approvals (snd (process_approval g rid x False reason)) rid
         = Some (r\<lparr>req_status := ''REJECTED'', rejected_by := Some x,
                  rejection_reason := reason\<rparr>)
     \<and> (current_approvals r + approvals_count calls < required_approvers r \<longrightarrow>
          (\<exists>r'. pending_approvals
                   (process_approvals (snd (process_approval g rid x False reason)) rid calls)
                   rid = Some r'
                \<and> req_status r' = ''REJECTED''))
     \<and> (required_approvers r \<le> current_approvals r + 1 \<longrightarrow>
          (\<exists>r'. pending_approvals
                   (process_approvals (snd (process_approval g rid x False reason)) rid
                      [(x2, True, reason2)])
                   rid = Some r'
                \<and> req_status r' = ''APPROVED''))"
proof -
  let ?r1 = "r\<lparr>req_status := ''REJECTED'', rejected_by := Some x, rejection_reason := reason\<rparr>"
  let ?g1 = "g\<lparr>pending_approvals := (pending_approvals g)(rid \<mapsto> ?r1)\<rparr>"
  have step: "process_approval g rid x False reason = (False, ?g1)"
    using assms by (rule process_approval_reject)
  have stored: "pending_approvals ?g1 rid = Some ?r1" by simp
  have stays: "\<exists>r'. pending_approvals (process_approvals ?g1 rid calls) rid = Some r'
                    \<and> req_status r' = ''REJECTED''"
    if "current_approvals r + approvals_count calls < required_approvers r"
    by (rule rejected_stays_rejected[OF stored]) (use that in simp_all)
  have flips: "\<exists>r'. pending_approvals (process_approvals ?g1 rid [(x2, True, reason2)]) rid
                      = Some r'
                    \<and> req_status r' = ''APPROVED''"
    if "required_approvers r \<le> current_approvals r + 1"
    using that by (simp add: process_approval_approve[OF stored])
  show ?thesis using step stored stays flips by simp
qed

text \<open>
  Two instances. On a fresh request needing two approvals, a rejection survives a
  later approval and a later rejection. On the same request after one approval, a
  rejection sets REJECTED, a further rejection keeps it, and a further approval, the
  second one, sets APPROVED.
\<close>

theorem rejection_sets_rejected_witness:
  "pending_approvals (example_gate 2) ''R1'' = Some (example_request 2)
   \<and> current_approvals (example_request 2)
       + approvals_count [(''bob'', True, None), (''carol'', False, Some ''no'')]
       < required_approvers (example_request 2)
   \<and> map_option req_status
       (pending_approvals
          (process_approvals (example_gate 2) ''R1''
             [(''alice'', False, None), (''bob'', True, None), (''carol'', False, Some ''no'')])
          ''R1'')
     = Some ''REJECTED''
   \<and> pending_approvals (process_approvals (example_gate 2) ''R1'' [(''alice'', True, None)])
        ''R1''
     = Some ((example_request 2)\<lparr>approved_by := [''alice''], current_approvals := 1\<rparr>)
   \<and> required_approvers ((example_request 2)\<lparr>approved_by := [''alice''], current_approvals := 1\<rparr>)
       \<le> current_approvals
            ((example_request 2)\<lparr>approved_by := [''alice''], current_approvals := 1\<rparr>) + 1
   \<and> map_option req_status
       (pending_approvals
          (process_approvals (example_gate 2) ''R1''
             [(''alice'', True, None), (''bob'', False, None)]) ''R1'')
     = Some ''REJECTED''
   \<and> map_option req_status
       (pending_approvals
          (process_approvals (example_gate 2) ''R1''
             [(''alice'', True, None), (''bob'', False, None), (''dave'', True, None)]) ''R1'')
     = Some ''APPROVED''"
proof -
  have p: "pending_approvals (example_gate 2) ''R1'' = Some (example_request 2)"
    by (simp add: example_gate_def)
  have q: "pending_approvals
             (process_approvals (example_gate 2) ''R1'' [(''alice'', True, None)]) ''R1''
           = Some ((example_request 2)\<lparr>approved_by := [''alice''], current_approvals := 1\<rparr>)"
    by (simp add: process_approval_approve[OF p]) (simp add: example_request_def)
  show ?thesis
    using rejection_sets_rejected
            [OF p, of "''alice''" None "[(''bob'', True, None), (''carol'', False, Some ''no'')]"
               "''dave''" None]
          rejection_sets_rejected
            [OF q, of "''bob''" None "[]" "''dave''" None]
          p q
    by (simp add: example_request_def approvals_count_def)
qed


section \<open>Theorems: audit trail\<close>

lemma update_fresh: "k \<notin> fst ` set al \<Longrightarrow> AList.update k v al = al @ [(k, v)]"
  by (induction al) auto

lemma update_appended:
  "k \<notin> fst ` set al \<Longrightarrow> AList.update k v' (al @ [(k, v)]) = al @ [(k, v')]"
  by (induction al) auto

lemma map_of_appended: "k \<notin> fst ` set al \<Longrightarrow> map_of (al @ [(k, v)]) k = Some v"
  by (induction al) auto

lemma set_update_subset: "set (AList.update k v al) \<subseteq> insert (k, v) (set al)"
  by (induction al) auto

lemma map_of_Some_key: "map_of al k = Some v \<Longrightarrow> k \<in> fst ` set al"
  by (induction al) (auto split: if_splits)

text \<open>
  C9. For a log id that is not a key of the audit store, \<open>update_log_outcome\<close> and
  \<open>record_human_override\<close> return False and the whole manager state, the audit store
  included, is the one before the call: nothing is created, nothing is modified.
\<close>

theorem unknown_log_id_no_effect:
  assumes "lid \<notin> fst ` set (audit_logs m)"
  shows "update_log_outcome m lid out st mods = (False, m)
       \<and> record_human_override m lid who reason now = (False, m)"
proof -
  have "map_of (audit_logs m) lid = None" using assms by (simp add: map_of_eq_None_iff)
  then show ?thesis by (simp add: update_log_outcome_def record_human_override_def)
qed

theorem unknown_log_id_no_effect_witness:
  "''L9'' \<notin> fst ` set (audit_logs (run_audit_ops (take 1 example_ops)))
   \<and> update_log_outcome (run_audit_ops (take 1 example_ops)) ''L9'' ''SUCCESS'' COMPLETED
        (Some [[(''type'', ''EDIT'')]])
       = (False, run_audit_ops (take 1 example_ops))
   \<and> record_human_override (run_audit_ops (take 1 example_ops)) ''L9'' ''u1'' ''checked'' ''t1''
       = (False, run_audit_ops (take 1 example_ops))"
proof -
  have k: "''L9'' \<notin> fst ` set (audit_logs (run_audit_ops (take 1 example_ops)))"
    by (simp add: example_ops_def run_audit_ops_def AuditTrailManager_init_def log_action_def)
  show ?thesis
    using unknown_log_id_no_effect
            [OF k, of "''SUCCESS''" COMPLETED "Some [[(''type'', ''EDIT'')]]"
                "''u1''" "''checked''" "''t1''"] k
    by simp
qed

lemma map_of_dd_append: "map_of (dd_append k v d) = (map_of d)(k \<mapsto> dd_get d k @ [v])"
  by (auto simp: dd_append_def dd_get_def update_conv' fun_eq_iff map_add_def
           split: option.splits)

lemma dd_get_dd_append:
  "dd_get (dd_append k v d) k' = (if k' = k then dd_get d k @ [v] else dd_get d k')"
  by (simp add: dd_get_def[of "dd_append k v d"] map_of_dd_append) (simp add: dd_get_def)

lemma dd_append_values:
  assumes "\<forall>kv \<in> set d. set (snd kv) \<subseteq> S" and "v \<in> S"
  shows "\<forall>kv \<in> set (dd_append k v d). set (snd kv) \<subseteq> S"
proof (cases "map_of d k")
  case None
  then show ?thesis using assms by (auto simp: dd_append_def)
next
  case (Some vs)
  then have "(k, vs) \<in> set d" by (rule map_of_SomeD)
  with assms(1) have vs: "set vs \<subseteq> S" by fastforce
  have "set (snd kv) \<subseteq> S" if "kv \<in> set (AList.update k (vs @ [v]) d)" for kv
  proof -
    from that have "kv = (k, vs @ [v]) \<or> kv \<in> set d"
      using set_update_subset[of k "vs @ [v]" d] by blast
    then show ?thesis using assms vs by auto
  qed
  then show ?thesis using Some by (simp add: dd_append_def)
qed

lemma append_if_truthy_values:
  assumes "\<forall>kv \<in> set d. set (snd kv) \<subseteq> S" and "v \<in> S"
  shows "\<forall>kv \<in> set (append_if_truthy ko v d). set (snd kv) \<subseteq> S"
proof (cases ko)
  case None
  then show ?thesis using assms(1) by simp
next
  case (Some k)
  then show ?thesis using dd_append_values[OF assms, of k] assms(1) by simp
qed

lemma dd_get_append_if_truthy_mono:
  "set (dd_get d k') \<subseteq> set (dd_get (append_if_truthy ko v d) k')"
  by (cases ko) (auto simp: dd_get_dd_append)

lemma keys_append_api_call: "map fst (append_api_call al c aid) = map fst al"
  by (induction al c aid rule: append_api_call.induct) auto

lemma append_api_call_entries:
  "(k, e') \<in> set (append_api_call al c aid) \<Longrightarrow>
   \<exists>e. (k, e) \<in> set al \<and> (e' = e \<or> e' = e\<lparr>api_calls := api_calls e @ [c]\<rparr>)"
  by (induction al c aid rule: append_api_call.induct) (auto split: if_splits)

lemma index_ids_logged_step:
  "index_ids_logged m \<Longrightarrow> index_ids_logged (apply_audit_op m op)"
proof (cases op)
  case (LogAction a session uid ip lid)
  assume inv: "index_ids_logged m"
  let ?K = "fst ` set (audit_logs m)"
  have p: "\<forall>kv \<in> set (append_if_truthy (patient_id a) lid (log_index_by_patient m)).
             set (snd kv) \<subseteq> insert lid ?K"
    by (rule append_if_truthy_values) (use inv in \<open>auto simp: index_ids_logged_def\<close>)
  have s: "\<forall>kv \<in> set (append_if_truthy session lid (log_index_by_session m)).
             set (snd kv) \<subseteq> insert lid ?K"
    by (rule append_if_truthy_values) (use inv in \<open>auto simp: index_ids_logged_def\<close>)
  have g: "\<forall>kv \<in> set (dd_append (agent_type a) lid (log_index_by_agent m)).
             set (snd kv) \<subseteq> insert lid ?K"
    by (rule dd_append_values) (use inv in \<open>auto simp: index_ids_logged_def\<close>)
  show ?thesis using p s g LogAction
    by (simp add: index_ids_logged_def log_action_def dom_update)
next
  case (LogApiCall c aid)
  assume inv: "index_ids_logged m"
  have "fst ` set (append_api_call (audit_logs m) c aid) = fst ` set (audit_logs m)"
    using keys_append_api_call[of "audit_logs m" c aid] by (metis set_map)
  then show ?thesis using inv LogApiCall by (simp add: index_ids_logged_def log_api_call_def)
next
  case (LogAccess l)
  assume "index_ids_logged m"
  then show ?thesis using LogAccess by (simp add: index_ids_logged_def log_access_def Let_def)
next
  case (LogEscalation src aid reason conf lvl assignee eid)
  assume "index_ids_logged m"
  then show ?thesis using LogEscalation
    by (simp add: index_ids_logged_def log_escalation_def Let_def split: sum.splits)
next
  case (UpdateLogOutcome lid out st mods)
  assume inv: "index_ids_logged m"
  show ?thesis
  proof (cases "map_of (audit_logs m) lid")
    case None
    then show ?thesis using inv UpdateLogOutcome by (simp add: update_log_outcome_def)
  next
    case (Some entry)
    then have "lid \<in> fst ` set (audit_logs m)" by (rule map_of_Some_key)
    then have "insert lid (fst ` set (audit_logs m)) = fst ` set (audit_logs m)" by blast
    then show ?thesis using inv UpdateLogOutcome Some
      by (simp add: index_ids_logged_def update_log_outcome_def dom_update)
  qed
next
  case (RecordHumanOverride lid who reason now)
  assume inv: "index_ids_logged m"
  show ?thesis
  proof (cases "map_of (audit_logs m) lid")
    case None
    then show ?thesis using inv RecordHumanOverride by (simp add: record_human_override_def)
  next
    case (Some entry)
    then have "lid \<in> fst ` set (audit_logs m)" by (rule map_of_Some_key)
    then have "insert lid (fst ` set (audit_logs m)) = fst ` set (audit_logs m)" by blast
    then show ?thesis using inv RecordHumanOverride Some
      by (simp add: index_ids_logged_def record_human_override_def dom_update)
  qed
next
  case (ResolveEscalation eid who act now)
  assume "index_ids_logged m"
  then show ?thesis using ResolveEscalation
    by (simp add: index_ids_logged_def resolve_escalation_def split: option.splits)
qed

lemma entry_indexed_mono:
  assumes "entry_indexed m lid e"
    and "log_id e' = log_id e" "al_agent_type e' = al_agent_type e"
        "al_patient_id e' = al_patient_id e" "al_session_id e' = al_session_id e"
    and "\<And>k. set (dd_get (log_index_by_patient m) k) \<subseteq> set (dd_get (log_index_by_patient m') k)"
    and "\<And>k. set (dd_get (log_index_by_agent m) k) \<subseteq> set (dd_get (log_index_by_agent m') k)"
    and "\<And>k. set (dd_get (log_index_by_session m) k) \<subseteq> set (dd_get (log_index_by_session m') k)"
  shows "entry_indexed m' lid e'"
proof -
  have a: "lid \<in> set (dd_get (log_index_by_agent m') (al_agent_type e))"
    using assms(1,7) unfolding entry_indexed_def by blast
  have p: "lid \<in> set (dd_get (log_index_by_patient m') p)"
    if "al_patient_id e = Some p" "p \<noteq> []" for p
    using assms(1,6) that unfolding entry_indexed_def by (auto split: option.splits)
  have s: "lid \<in> set (dd_get (log_index_by_session m') s)"
    if "al_session_id e = Some s" "s \<noteq> []" for s
    using assms(1,8) that unfolding entry_indexed_def by (auto split: option.splits)
  have l: "log_id e = lid" using assms(1) unfolding entry_indexed_def by simp
  show ?thesis unfolding entry_indexed_def using a p s l assms(2-5)
    by (simp split: option.splits)
qed

lemma entries_indexed_same:
  assumes "entries_indexed m"
    and "audit_logs m' = audit_logs m"
    and "log_index_by_patient m' = log_index_by_patient m"
    and "log_index_by_agent m' = log_index_by_agent m"
    and "log_index_by_session m' = log_index_by_session m"
  shows "entries_indexed m'"
  using assms(1) unfolding entries_indexed_def entry_indexed_def assms(2-5) .

lemma entries_indexed_rewrite:
  assumes inv: "entries_indexed m"
    and found: "map_of (audit_logs m) lid = Some entry"
    and logs: "audit_logs m' = AList.update lid entry' (audit_logs m)"
    and same: "log_id entry' = log_id entry" "al_agent_type entry' = al_agent_type entry"
      "al_patient_id entry' = al_patient_id entry" "al_session_id entry' = al_session_id entry"
    and idx: "log_index_by_patient m' = log_index_by_patient m"
      "log_index_by_agent m' = log_index_by_agent m"
      "log_index_by_session m' = log_index_by_session m"
  shows "entries_indexed m'"
proof -
  have "(lid, entry) \<in> set (audit_logs m)" using found by (rule map_of_SomeD)
  then have "entry_indexed m lid entry" using inv by (auto simp: entries_indexed_def)
  then have new: "entry_indexed m' lid entry'"
    by (rule entry_indexed_mono) (simp_all add: same idx)
  have old: "entry_indexed m' k e" if "(k, e) \<in> set (audit_logs m)" for k e
  proof (rule entry_indexed_mono[of m k e])
    show "entry_indexed m k e" using inv that by (auto simp: entries_indexed_def)
  qed (simp_all add: idx)
  have "entry_indexed m' k e" if "(k, e) \<in> set (audit_logs m')" for k e
    using that set_update_subset[of lid entry' "audit_logs m"] new old by (auto simp: logs)
  then show ?thesis by (auto simp: entries_indexed_def)
qed

lemma entries_indexed_step:
  "entries_indexed m \<Longrightarrow> entries_indexed (apply_audit_op m op)"
proof (cases op)
  case (LogAction a session uid ip lid)
  assume inv: "entries_indexed m"
  obtain entry m' where la: "log_action m a session uid ip lid = (entry, m')"
    by (cases "log_action m a session uid ip lid")
  have flds: "log_id entry = lid" "al_agent_type entry = agent_type a"
      "al_patient_id entry = patient_id a" "al_session_id entry = session"
    using la by (auto simp: log_action_def new_audit_entry_def)
  have m': "audit_logs m' = AList.update lid entry (audit_logs m)"
      "log_index_by_patient m' = append_if_truthy (patient_id a) lid (log_index_by_patient m)"
      "log_index_by_agent m' = dd_append (agent_type a) lid (log_index_by_agent m)"
      "log_index_by_session m' = append_if_truthy session lid (log_index_by_session m)"
    using la by (auto simp: log_action_def)
  have new: "entry_indexed m' lid entry"
    unfolding entry_indexed_def flds m'
    by (auto simp: dd_get_dd_append split: option.splits)
  have old: "entry_indexed m' k e" if "(k, e) \<in> set (audit_logs m)" for k e
  proof (rule entry_indexed_mono[of m k e])
    show "entry_indexed m k e" using inv that by (auto simp: entries_indexed_def)
  qed (auto simp: m' dd_get_dd_append intro: subsetD[OF dd_get_append_if_truthy_mono])
  have "entry_indexed m' k e" if "(k, e) \<in> set (audit_logs m')" for k e
    using that set_update_subset[of lid entry "audit_logs m"] new old by (auto simp: m')
  then show ?thesis using LogAction la by (auto simp: entries_indexed_def)
next
  case (LogApiCall c aid)
  assume inv: "entries_indexed m"
  let ?m' = "snd (log_api_call m c aid)"
  have "entry_indexed ?m' k e'" if "(k, e') \<in> set (audit_logs ?m')" for k e'
  proof -
    from that have "(k, e') \<in> set (append_api_call (audit_logs m) c aid)"
      by (simp add: log_api_call_def)
    then obtain e where e: "(k, e) \<in> set (audit_logs m)"
        "e' = e \<or> e' = e\<lparr>api_calls := api_calls e @ [c]\<rparr>"
      using append_api_call_entries by blast
    then have "entry_indexed m k e" using inv by (auto simp: entries_indexed_def)
    then show ?thesis
      by (rule entry_indexed_mono) (use e(2) in \<open>auto simp: log_api_call_def\<close>)
  qed
  then show ?thesis using LogApiCall by (auto simp: entries_indexed_def)
next
  case (LogAccess l)
  assume "entries_indexed m"
  then show ?thesis unfolding LogAccess
    by (rule entries_indexed_same) (simp_all add: log_access_def Let_def)
next
  case (LogEscalation src aid reason conf lvl assignee eid)
  assume "entries_indexed m"
  then show ?thesis unfolding LogEscalation
    by (rule entries_indexed_same) (simp_all add: log_escalation_def Let_def split: sum.splits)
next
  case (UpdateLogOutcome lid out st mods)
  assume inv: "entries_indexed m"
  show ?thesis
  proof (cases "map_of (audit_logs m) lid")
    case None
    then show ?thesis using inv UpdateLogOutcome by (simp add: update_log_outcome_def)
  next
    case (Some entry)
    show ?thesis unfolding UpdateLogOutcome apply_audit_op.simps
      by (rule entries_indexed_rewrite
                 [OF inv Some,
                  where entry' = "entry\<lparr>outcome := out, al_status := st,
                    modifications :=
                      (case mods of None \<Rightarrow> modifications entry
                       | Some ms \<Rightarrow> if ms \<noteq> [] then modifications entry @ ms
                                    else modifications entry)\<rparr>"])
         (simp_all add: update_log_outcome_def Some)
  qed
next
  case (RecordHumanOverride lid who reason now)
  assume inv: "entries_indexed m"
  show ?thesis
  proof (cases "map_of (audit_logs m) lid")
    case None
    then show ?thesis using inv RecordHumanOverride by (simp add: record_human_override_def)
  next
    case (Some entry)
    show ?thesis unfolding RecordHumanOverride apply_audit_op.simps
      by (rule entries_indexed_rewrite
                 [OF inv Some,
                  where entry' = "entry\<lparr>human_override := True,
                    override_by := Some who, override_reason := Some reason,
                    modifications := modifications entry @
                      [[(''type'', ''HUMAN_OVERRIDE''), (''timestamp'', now),
                        (''by'', who), (''reason'', reason)]]\<rparr>"])
         (simp_all add: record_human_override_def Some)
  qed
next
  case (ResolveEscalation eid who act now)
  assume "entries_indexed m"
  then show ?thesis unfolding ResolveEscalation
    by (rule entries_indexed_same) (simp_all add: resolve_escalation_def split: option.splits)
qed

lemma integrity_preserved_by_run:
  "index_ids_logged m \<and> entries_indexed m \<Longrightarrow>
   index_ids_logged (foldl apply_audit_op m ops) \<and> entries_indexed (foldl apply_audit_op m ops)"
  by (induction ops arbitrary: m) (auto simp: index_ids_logged_step entries_indexed_step)

text \<open>
  The guard \<^verbatim>\<open>if action.patient_id:\<close> of \<open>log_action\<close> reads the empty string as
  "no patient id": an entry created with it is stored, and the patient index gets
  nothing.
\<close>

lemma empty_patient_id_not_indexed:
  "map_option al_patient_id (map_of (audit_logs (run_audit_ops example_ops_empty_id)) ''L1'')
     = Some (Some [])
   \<and> ''L1'' \<notin> set (dd_get (log_index_by_patient (run_audit_ops example_ops_empty_id)) [])"
  by (simp add: example_ops_empty_id_def run_audit_ops_def AuditTrailManager_init_def
                log_action_def new_audit_entry_def example_action_def dd_get_def)

text \<open>
  C10. After any sequence of the manager's state-changing operations from the empty
  state, every log id in the patient, agent-type or session index is a key of
  \<open>audit_logs\<close>, and every stored entry sits under its own log id, is listed in the
  agent-type index under its agent type, and, when it was created with a patient id
  (a session id), is listed in the patient (session) index under that id. An entry has
  a patient or session id when that field is true as \<open>log_action\<close> tests it, that is,
  a non-empty string.
\<close>

theorem index_integrity:
  "index_ids_logged (run_audit_ops ops) \<and> entries_indexed (run_audit_ops ops)"
  unfolding run_audit_ops_def
  by (rule integrity_preserved_by_run)
     (simp add: index_ids_logged_def entries_indexed_def AuditTrailManager_init_def)

theorem index_integrity_witness:
  "map_option al_patient_id (map_of (audit_logs (run_audit_ops example_ops)) ''L1'')
     = Some (Some ''P1'')
   \<and> map_option al_session_id (map_of (audit_logs (run_audit_ops example_ops)) ''L1'')
     = Some (Some ''S1'')
   \<and> index_ids_logged (run_audit_ops example_ops)
   \<and> entries_indexed (run_audit_ops example_ops)
   \<and> log_index_by_patient (run_audit_ops example_ops) = [(''P1'', [''L1''])]
   \<and> log_index_by_agent (run_audit_ops example_ops) = [(INTAKE, [''L1''])]
   \<and> log_index_by_session (run_audit_ops example_ops) = [(''S1'', [''L1''])]
   \<and> map fst (audit_logs (run_audit_ops example_ops)) = [''L1'']"
  using index_integrity[of example_ops]
  by (simp add: example_ops_def run_audit_ops_def AuditTrailManager_init_def
                log_action_def new_audit_entry_def example_action_def dd_append_def
                log_api_call_def update_log_outcome_def record_human_override_def)


section \<open>Theorems: the governance engine\<close>

lemma RiskLevel_of_string_value: "RiskLevel_of_string (RiskLevel_value l) = Inr l"
  by (cases l) (simp_all add: RiskLevel_of_string_def)

lemma log_action_fresh:
  assumes "lid \<notin> fst ` set (audit_logs m)"
  shows "audit_logs (snd (log_action m a session uid ip lid))
           = audit_logs m @ [(lid, new_audit_entry a session uid ip lid)]"
  using assms by (simp add: log_action_def update_fresh)

lemma new_audit_entry_fields:
  "log_id (new_audit_entry a session uid ip lid) = lid"
  "al_status (new_audit_entry a session uid ip lid) = status a"
  by (simp_all add: new_audit_entry_def)

lemma reject_permission_logs:
  assumes "new_log_id ids \<notin> fst ` set (audit_logs (audit_trail e))"
  shows "logs_one_entry e (fst (reject_permission e a uid session ip ids reason))
           (snd (reject_permission e a uid session ip ids reason)) (new_log_id ids)"
  unfolding logs_one_entry_def
  by (rule exI[of _ "new_audit_entry (a\<lparr>status := REJECTED\<rparr>) session (Some uid) ip
                       (new_log_id ids)"])
     (simp add: reject_permission_def log_action_fresh[OF assms] new_audit_entry_fields)

lemma reject_patient_access_logs:
  "logs_access_denial e (fst (reject_patient_access e a pid uid session ip ids why))
     (snd (reject_patient_access e a pid uid session ip ids why)) (new_access_id ids)"
  by (auto simp: logs_access_denial_def reject_patient_access_def log_access_def Let_def)

lemma escalate_logs:
  assumes "new_log_id ids \<notin> fst ` set (audit_logs (audit_trail e))"
  shows "\<exists>r e'. escalate tr e a uid session ip ids t why = Inr (r, e')
               \<and> logs_one_entry e r e' (new_log_id ids)"
proof -
  obtain esc_id fb a1 where tr: "tr (fallback e) a t (reason_or_default why) = (esc_id, fb, a1)"
    by (cases "tr (fallback e) a t (reason_or_default why)") auto
  obtain lg trail where le:
    "log_escalation (audit_trail e) (agent_type a1) (action_id a1) (reason_or_default why)
       (confidence_score a1) (RiskLevel_value (risk_level a1)) None (new_escalation_log_id ids)
     = Inr (lg, trail)" and trail: "audit_logs trail = audit_logs (audit_trail e)"
    by (simp add: log_escalation_def RiskLevel_of_string_value Let_def)
  have fresh: "new_log_id ids \<notin> fst ` set (audit_logs trail)" using assms trail by simp
  show ?thesis
    unfolding logs_one_entry_def
    by (simp add: escalate_def tr le log_action_fresh[OF fresh] trail new_audit_entry_fields)
qed

lemma update_log_outcome_appended:
  assumes "audit_logs m = al @ [(lid, entry)]" and "lid \<notin> fst ` set al"
  shows "audit_logs (snd (update_log_outcome m lid out st None))
           = al @ [(lid, entry\<lparr>outcome := out, al_status := st\<rparr>)]"
proof -
  have look: "map_of (audit_logs m) lid = Some entry"
    unfolding assms(1) by (rule map_of_appended[OF assms(2)])
  have "audit_logs (snd (update_log_outcome m lid out st None))
          = AList.update lid (entry\<lparr>outcome := out, al_status := st\<rparr>) (audit_logs m)"
    by (simp add: update_log_outcome_def look)
  also have "\<dots> = al @ [(lid, entry\<lparr>outcome := out, al_status := st\<rparr>)]"
    unfolding assms(1) by (rule update_appended[OF assms(2)])
  finally show ?thesis .
qed

lemma run_and_record_logs:
  assumes "audit_logs (audit_trail e1) = al @ [(lid, entry)]" and "lid \<notin> fst ` set al"
    and "log_id entry = lid"
  shows "\<exists>entry'. audit_logs (audit_trail (snd (run_and_record e1 a entry))) = al @ [(lid, entry')]
          \<and> log_id entry' = lid
          \<and> al_status entry' = status (resp_action (fst (run_and_record e1 a entry)))"
proof -
  obtain a1 r1 where ex:
    "execute_action e1 (foldl (\<lambda>x hook. hook x) a (pre_execution_hooks e1)) = (a1, r1)"
    by (cases "execute_action e1 (foldl (\<lambda>x hook. hook x) a (pre_execution_hooks e1))") auto
  obtain a2 r where post:
    "foldl (\<lambda>x hook. hook (fst x) (snd x)) (a1, r1) (post_execution_hooks e1) = (a2, r)"
    by (cases "foldl (\<lambda>x hook. hook (fst x) (snd x)) (a1, r1) (post_execution_hooks e1)") auto
  note upd = update_log_outcome_appended[OF assms(1,2)]
  show ?thesis
  proof (cases "result_success r")
    case True
    then have "audit_logs (audit_trail (snd (run_and_record e1 a entry)))
                 = al @ [(lid, entry\<lparr>outcome := ''SUCCESS'', al_status := COMPLETED\<rparr>)]"
      and "status (resp_action (fst (run_and_record e1 a entry))) = COMPLETED"
      by (simp_all add: run_and_record_def ex post assms(3) upd)
    then show ?thesis using assms(3) by simp
  next
    case False
    then have "audit_logs (audit_trail (snd (run_and_record e1 a entry)))
                 = al @ [(lid, entry\<lparr>outcome := result_error r, al_status := FAILED\<rparr>)]"
      and "status (resp_action (fst (run_and_record e1 a entry))) = FAILED"
      by (simp_all add: run_and_record_def ex post assms(3) upd)
    then show ?thesis using assms(3) by simp
  qed
qed

lemma gate_and_run_logs:
  assumes "new_log_id ids \<notin> fst ` set (audit_logs (audit_trail e))"
    and "rules (risk_gates e) \<noteq> []"
  shows "\<exists>r e'. gate_and_run e a uid session ip ids = Inr (r, e')
               \<and> logs_one_entry e r e' (new_log_id ids)"
proof -
  let ?lid = "new_log_id ids"
  obtain cp req g' a1 where eg:
    "evaluate_gate (risk_gates e) a (new_request_id ids) = Inr ((cp, req), g', a1)"
    using evaluate_gate_returns[OF assms(2)] by blast
  obtain entry trail where la:
      "log_action (audit_trail e) a1 session (Some uid) ip ?lid = (entry, trail)"
    by (cases "log_action (audit_trail e) a1 session (Some uid) ip ?lid") auto
  have entry: "entry = new_audit_entry a1 session (Some uid) ip ?lid"
    using la by (simp add: log_action_def)
  have flds: "log_id entry = ?lid" "al_status entry = status a1"
    unfolding entry by (rule new_audit_entry_fields)+
  have logs: "audit_logs trail = audit_logs (audit_trail e) @ [(?lid, entry)]"
    using log_action_fresh[OF assms(1), of a1 session "Some uid" ip] la entry by simp
  show ?thesis
  proof (cases cp)
    case False
    then show ?thesis
      unfolding logs_one_entry_def
      by (cases req) (simp_all add: gate_and_run_def eg la logs flds)
  next
    case True
    let ?e1 = "e\<lparr>risk_gates := g', audit_trail := trail\<rparr>"
    have "\<exists>entry'. audit_logs (audit_trail (snd (run_and_record ?e1 a1 entry)))
                     = audit_logs (audit_trail e) @ [(?lid, entry')]
          \<and> log_id entry' = ?lid
          \<and> al_status entry' = status (resp_action (fst (run_and_record ?e1 a1 entry)))"
      by (rule run_and_record_logs) (simp_all add: logs assms(1) flds)
    then show ?thesis
      unfolding logs_one_entry_def using True
      by (cases "run_and_record ?e1 a1 entry") (simp add: gate_and_run_def eg la)
  qed
qed

lemma example_action_fields:
  "agent_type (example_action agent act pid lvl conf) = agent"
  "action_type (example_action agent act pid lvl conf) = act"
  "patient_id (example_action agent act pid lvl conf) = pid"
  by (simp_all add: example_action_def)

lemma example_permission:
  "check_permission (rbac (example_engine BILLING_STAFF)) ''u1'' BILLING ''submit_claim''
     True False = (True, ''Permission granted'')"
  by (simp add: example_engine_def example_rbac_def example_user_def register_user_def
                RBACManager_init_def initialize_default_permissions_def all_user_roles_def
                all_agent_types_def make_permission_def check_permission_def)

lemma example_access_denial:
  "patient_access_denial (rbac (example_engine BILLING_STAFF))
     (example_action BILLING ''submit_claim'' (Some ''P1'') LOW (99 / 100)) ''u1''
   = Some (''P1'', ''Billing staff limited to billing-related access'')"
  by (simp add: example_engine_def example_rbac_def example_user_def register_user_def
                RBACManager_init_def patient_access_denial_def check_patient_access_def
                example_action_def)

text \<open>
  C1, as stated, fails on the subject-access denial branch. A billing clerk may write
  to the billing agent, but \<open>check_patient_access\<close> refuses the access type
  \<^verbatim>\<open>WRITE\<close> to that role; \<open>process_action\<close> then records an \<^verbatim>\<open>AccessLog\<close> and
  returns the action REJECTED without calling \<open>log_action\<close>: the audit log stays empty.
\<close>

theorem process_action_access_denial_counterexample:
  "isl (process_action fb_evaluate_action fb_trigger_escalation (example_engine BILLING_STAFF)
          (example_action BILLING ''submit_claim'' (Some ''P1'') LOW (99 / 100))
          ''u1'' (Some ''S1'') None example_ids) = False
   \<and> status (resp_action (fst (projr
        (process_action fb_evaluate_action fb_trigger_escalation (example_engine BILLING_STAFF)
           (example_action BILLING ''submit_claim'' (Some ''P1'') LOW (99 / 100))
           ''u1'' (Some ''S1'') None example_ids)))) = REJECTED
   \<and> audit_logs (audit_trail (snd (projr
        (process_action fb_evaluate_action fb_trigger_escalation (example_engine BILLING_STAFF)
           (example_action BILLING ''submit_claim'' (Some ''P1'') LOW (99 / 100))
           ''u1'' (Some ''S1'') None example_ids)))) = []
   \<and> map fst (access_logs (audit_trail (snd (projr
        (process_action fb_evaluate_action fb_trigger_escalation (example_engine BILLING_STAFF)
           (example_action BILLING ''submit_claim'' (Some ''P1'') LOW (99 / 100))
           ''u1'' (Some ''S1'') None example_ids))))) = [''X1'']"
proof -
  have run: "process_action fb_evaluate_action fb_trigger_escalation (example_engine BILLING_STAFF)
          (example_action BILLING ''submit_claim'' (Some ''P1'') LOW (99 / 100))
          ''u1'' (Some ''S1'') None example_ids
        = Inr (reject_patient_access (example_engine BILLING_STAFF)
                 (example_action BILLING ''submit_claim'' (Some ''P1'') LOW (99 / 100))
                 ''P1'' ''u1'' (Some ''S1'') None example_ids
                 ''Billing staff limited to billing-related access'')"
    by (simp add: process_action_def example_action_fields example_permission
                  example_access_denial)
  show ?thesis
    unfolding run
    by (simp add: reject_patient_access_def log_access_def Let_def example_engine_def
                  AuditTrailManager_init_def example_ids_def)
qed

text \<open>
  C1, amended. Provided the log id drawn for the call is not yet a key of the audit
  log and the rule dictionary is not empty, \<open>process_action\<close> returns a response, and
  \<^item> on the subject-access denial branch it writes no \<^verbatim>\<open>AuditLogEntry\<close>: the audit log
    is unchanged, one unsuccessful \<^verbatim>\<open>AccessLog\<close> is stored, and the returned action is
    REJECTED;
  \<^item> on every other branch (permission denial, escalation, gate block, execute path)
    the audit log grows by exactly one entry, whose status is the status of the action
    returned to the caller.
  The two fallback methods are arbitrary, as are the handlers and hooks.
\<close>

theorem process_action_one_audit_entry:
  assumes "new_log_id ids \<notin> fst ` set (audit_logs (audit_trail e))"
    and "rules (risk_gates e) \<noteq> []"
  shows "\<exists>r e'. process_action ev tr e a uid session ip ids = Inr (r, e')
           \<and> (if patient_access_denied e a uid
                then logs_access_denial e r e' (new_access_id ids)
              else logs_one_entry e r e' (new_log_id ids))"
proof -
  obtain ok reason where cp:
    "check_permission (rbac e) uid (agent_type a) (action_type a) True False = (ok, reason)"
    by (cases "check_permission (rbac e) uid (agent_type a) (action_type a) True False") auto
  show ?thesis
  proof (cases ok)
    case False
    then show ?thesis
      using reject_permission_logs[OF assms(1), of a uid session ip reason]
      by (cases "reject_permission e a uid session ip ids reason")
         (simp add: process_action_def cp patient_access_denied_def)
  next
    case True
    show ?thesis
    proof (cases "patient_access_denial (rbac e) a uid")
      case (Some d)
      obtain pid why where d: "d = (pid, why)" by (cases d) auto
      show ?thesis
        using True Some d reject_patient_access_logs[of e a pid uid session ip ids why]
        by (cases "reject_patient_access e a pid uid session ip ids why")
           (simp add: process_action_def cp patient_access_denied_def)
    next
      case None
      let ?a = "a\<lparr>risk_level := classify_risk a\<rparr>"
      obtain se trig why where ev: "ev (fallback e) ?a = (se, trig, why)"
        by (cases "ev (fallback e) ?a") auto
      have nd: "\<not> patient_access_denied e a uid"
        using None by (simp add: patient_access_denied_def)
      show ?thesis
      proof (cases "if se then trig else None")
        case (Some t)
        then show ?thesis
          using True None nd ev escalate_logs[OF assms(1), of tr ?a uid session ip t why]
          by (simp add: process_action_def cp)
      next
        case N: None
        then show ?thesis
          using True None nd ev gate_and_run_logs[OF assms, of ?a uid session ip]
          by (simp add: process_action_def cp)
      qed
    qed
  qed
qed

text \<open>
  An administrator registers a patient with confidence 0.99: no denial, no escalation,
  the LOW gate passes, and no handler is registered.
\<close>

theorem process_action_one_audit_entry_witness:
  "new_log_id example_ids \<notin> fst ` set (audit_logs (audit_trail (example_engine SYSTEM_ADMIN)))
   \<and> rules (risk_gates (example_engine SYSTEM_ADMIN)) \<noteq> []
   \<and> \<not> patient_access_denied (example_engine SYSTEM_ADMIN)
         (example_action INTAKE ''register_patient'' (Some ''P1'') LOW (99 / 100)) ''u1''
   \<and> (\<exists>r e'. process_action fb_evaluate_action fb_trigger_escalation
                (example_engine SYSTEM_ADMIN)
                (example_action INTAKE ''register_patient'' (Some ''P1'') LOW (99 / 100))
                ''u1'' (Some ''S1'') None example_ids = Inr (r, e')
             \<and> logs_one_entry (example_engine SYSTEM_ADMIN) r e' ''L1'')"
proof -
  have f: "new_log_id example_ids
             \<notin> fst ` set (audit_logs (audit_trail (example_engine SYSTEM_ADMIN)))"
    by (simp add: example_engine_def AuditTrailManager_init_def)
  have r: "rules (risk_gates (example_engine SYSTEM_ADMIN)) \<noteq> []"
    by (simp add: example_engine_def default_rules_nonempty)
  have d: "\<not> patient_access_denied (example_engine SYSTEM_ADMIN)
             (example_action INTAKE ''register_patient'' (Some ''P1'') LOW (99 / 100)) ''u1''"
    by (simp add: patient_access_denied_def patient_access_denial_def check_patient_access_def
                  example_engine_def example_rbac_def example_user_def register_user_def
                  example_action_def)
  show ?thesis
    using process_action_one_audit_entry
            [OF f r, of fb_evaluate_action fb_trigger_escalation
               "example_action INTAKE ''register_patient'' (Some ''P1'') LOW (99 / 100)"
               "''u1''" "Some ''S1''" None]
          f r d
    by (simp add: example_ids_def)
qed


section \<open>Theorems: bias monitor\<close>

lemma length_fst_collect_outcomes:
  "length (fst (collect_outcomes rs dimn prot ref)) = group_samples rs dimn prot"
  by (induction rs) (auto simp: group_samples_def Let_def)

lemma length_snd_collect_outcomes:
  "length (snd (collect_outcomes rs dimn prot ref)) \<le> group_samples rs dimn ref"
  by (induction rs) (auto simp: group_samples_def Let_def)

lemma mean_returns: "xs \<noteq> [] \<Longrightarrow> mean xs = Inr (sum_list xs / real (length xs))"
  by (simp add: mean_def)

lemma disparity_returns: "\<exists>q. disparity p r = Inr q"
  by (simp add: disparity_def py_truediv_def)

lemma disparity_zero: "disparity 0 0 = Inr (Finite 1)"
  by (simp add: disparity_def)

lemma calculate_disparate_impact_never_raises:
  "calculate_disparate_impact b a act dimn prot ref mid eid \<noteq> Inl e"
proof -
  let ?rs = "key_records b a act"
  let ?po = "fst (collect_outcomes ?rs dimn prot ref)"
  let ?ro = "snd (collect_outcomes ?rs dimn prot ref)"
  show ?thesis
  proof (cases "length ?rs < 10 \<or> length ?po < 5 \<or> length ?ro < 5")
    case True
    then show ?thesis by (auto simp: calculate_disparate_impact_def Let_def)
  next
    case False
    then have ne: "?po \<noteq> []" "?ro \<noteq> []" by auto
    obtain q where q: "disparity (sum_list ?po / real (length ?po))
                                 (sum_list ?ro / real (length ?ro)) = Inr q"
      using disparity_returns by blast
    show ?thesis using False
      by (simp add: calculate_disparate_impact_def Let_def mean_returns[OF ne(1)]
                    mean_returns[OF ne(2)] q)
  qed
qed

lemma example_records:
  "key_records example_monitor INTAKE ''register_patient'' =
     map (\<lambda>(g, v). \<lparr>br_agent_type = ''INTAKE'', br_action_type = ''register_patient'',
                     demographics = [(''gender'', g)], br_outcome = ''NEGATIVE'',
                     outcome_value = v\<rparr>)
       [(''F'', None), (''M'', Some 0), (''F'', None), (''M'', Some 0), (''F'', None),
        (''M'', Some 0), (''F'', None), (''M'', Some 0), (''F'', None), (''M'', Some 0)]"
  by (simp add: example_monitor_def key_records_def record_action_outcome_def
                BiasMonitor_init_def records_key_def dd_append_def dd_get_def)

lemma example_collect_outcomes:
  "collect_outcomes (key_records example_monitor INTAKE ''register_patient'')
      ''gender'' ''F'' ''M'' = ([0, 0, 0, 0, 0], [0, 0, 0, 0, 0])"
  by (simp add: example_records record_value_def Let_def)

text \<open>
  C7. \<open>calculate_disparate_impact\<close> never raises: whatever the monitor and the
  arguments, its result is not an error, the division being reached only with a
  non-zero reference rate. And when there are enough samples (ten for the key, five in
  each group) and the mean outcome of the protected group and of the reference group
  are both 0, it returns a metric whose \<open>disparity_ratio\<close> is 1.0, and stores it.
  Outcome values are reals here, so the means are exact.
\<close>

theorem disparate_impact_zero_rates:
  "(\<forall>e. calculate_disparate_impact b a act dimn prot ref mid eid \<noteq> Inl e)
   \<and> (10 \<le> length (key_records b a act)
      \<and> 5 \<le> length (fst (collect_outcomes (key_records b a act) dimn prot ref))
      \<and> 5 \<le> length (snd (collect_outcomes (key_records b a act) dimn prot ref))
      \<and> mean (fst (collect_outcomes (key_records b a act) dimn prot ref)) = Inr 0
      \<and> mean (snd (collect_outcomes (key_records b a act) dimn prot ref)) = Inr 0
      \<longrightarrow> (\<exists>m b'. calculate_disparate_impact b a act dimn prot ref mid eid = Inr (Some m, b')
                  \<and> disparity_ratio m = Finite 1
                  \<and> map_of (metrics b') mid = Some m))"
proof (intro conjI allI impI)
  fix e show "calculate_disparate_impact b a act dimn prot ref mid eid \<noteq> Inl e"
    by (rule calculate_disparate_impact_never_raises)
next
  assume h: "10 \<le> length (key_records b a act)
      \<and> 5 \<le> length (fst (collect_outcomes (key_records b a act) dimn prot ref))
      \<and> 5 \<le> length (snd (collect_outcomes (key_records b a act) dimn prot ref))
      \<and> mean (fst (collect_outcomes (key_records b a act) dimn prot ref)) = Inr 0
      \<and> mean (snd (collect_outcomes (key_records b a act) dimn prot ref)) = Inr 0"
  then show "\<exists>m b'. calculate_disparate_impact b a act dimn prot ref mid eid = Inr (Some m, b')
                  \<and> disparity_ratio m = Finite 1 \<and> map_of (metrics b') mid = Some m"
    by (simp add: calculate_disparate_impact_def Let_def disparity_zero
                  create_compliance_event_def update_conv')
qed

theorem disparate_impact_zero_rates_witness:
  "10 \<le> length (key_records example_monitor INTAKE ''register_patient'')
   \<and> 5 \<le> length (fst (collect_outcomes (key_records example_monitor INTAKE ''register_patient'')
                        ''gender'' ''F'' ''M''))
   \<and> 5 \<le> length (snd (collect_outcomes (key_records example_monitor INTAKE ''register_patient'')
                        ''gender'' ''F'' ''M''))
   \<and> mean (fst (collect_outcomes (key_records example_monitor INTAKE ''register_patient'')
                  ''gender'' ''F'' ''M'')) = Inr 0
   \<and> mean (snd (collect_outcomes (key_records example_monitor INTAKE ''register_patient'')
                  ''gender'' ''F'' ''M'')) = Inr 0
   \<and> (\<exists>m b'. calculate_disparate_impact example_monitor INTAKE ''register_patient''
                ''gender'' ''F'' ''M'' ''M1'' ''V1'' = Inr (Some m, b')
             \<and> disparity_ratio m = Finite 1
             \<and> map_of (metrics b') ''M1'' = Some m)"
  using disparate_impact_zero_rates
          [of example_monitor INTAKE "''register_patient''" "''gender''" "''F''" "''M''"
              "''M1''" "''V1''"]
  by (simp add: example_collect_outcomes mean_def) (simp add: example_records)

text \<open>
  C8. When the key has fewer than 10 recorded samples, or one of the two compared
  groups has fewer than 5 samples among them, \<open>calculate_disparate_impact\<close> returns
  None without raising, and the monitor is unchanged: no metric is stored and no
  compliance event is created.
\<close>

theorem insufficient_data_none:
  assumes "length (key_records b a act) < 10
         \<or> group_samples (key_records b a act) dimn prot < 5
         \<or> group_samples (key_records b a act) dimn ref < 5"
  shows "calculate_disparate_impact b a act dimn prot ref mid eid = Inr (None, b)"
proof -
  have "length (key_records b a act) < 10
      \<or> length (fst (collect_outcomes (key_records b a act) dimn prot ref)) < 5
      \<or> length (snd (collect_outcomes (key_records b a act) dimn prot ref)) < 5"
    using assms length_snd_collect_outcomes[of "key_records b a act" dimn prot ref]
    by (auto simp: length_fst_collect_outcomes)
  then show ?thesis
    by (auto simp: calculate_disparate_impact_def Let_def)
qed

theorem insufficient_data_none_witness:
  "group_samples (key_records example_monitor INTAKE ''register_patient'') ''gender'' ''X'' < 5
   \<and> length (key_records example_monitor INTAKE ''register_patient'') = 10
   \<and> calculate_disparate_impact example_monitor INTAKE ''register_patient''
        ''gender'' ''X'' ''M'' ''M1'' ''V1'' = Inr (None, example_monitor)"
  using insufficient_data_none
          [of example_monitor INTAKE "''register_patient''" "''gender''" "''X''" "''M''"
              "''M1''" "''V1''"]
  by (simp add: example_records group_samples_def)


end
